theory Spec2Isabelle
  imports Complex_Main
begin

section \<open>The execution core of graphql-js (src/execution/execute.ts)\<close>

text \<open>
  A shallow embedding of \<^verbatim>\<open>execute.ts\<close>. Thrown exceptions are values of
  \<open>'a outcome\<close>; the two mutable arrays of the execution context and the mutable
  payload records live in an explicit \<open>state\<close> that every function takes and returns.
  A promise is a symbolic value: the model runs the synchronous part of the engine, and
  the callbacks the source attaches with \<^verbatim>\<open>then\<close> are separate functions that take the
  settlement delivered by the event loop as an argument.
\<close>

subsection \<open>Paths, errors and JavaScript values\<close>

datatype pathKey = Key string | Index nat

datatype path = Path "path option" pathKey "string option"

text \<open>Modelled from the spec: \<^verbatim>\<open>addPath\<close> and \<^verbatim>\<open>pathToArray\<close> of jsutils/Path
  (not under src/): a persistent linked chain of segments, created by extension and
  serialised to the ordered sequence of its keys.\<close>

definition addPath :: "path option \<Rightarrow> pathKey \<Rightarrow> string option \<Rightarrow> path" where
  "addPath prev k typename = Path prev k typename"

fun pathToArray :: "path \<Rightarrow> pathKey list" where
  "pathToArray (Path None k t) = [k]"
| "pathToArray (Path (Some p) k t) = pathToArray p @ [k]"

text \<open>An error object: its message and, once located, its response path. Source
  locations (the field nodes) are not represented.\<close>

record gqlError =
  message :: string
  errPath :: "pathKey list option"

definition newError :: "string \<Rightarrow> gqlError" where
  "newError msg = \<lparr>message = msg, errPath = None\<rparr>"

text \<open>Modelled from the spec: \<^verbatim>\<open>locatedError\<close> of error/locatedError (not under src/):
  the error gets the path of the field where it was raised; an error that already has a
  path keeps it, so the path is the one it had before any bubbling.\<close>

definition locatedError :: "gqlError \<Rightarrow> pathKey list \<Rightarrow> gqlError" where
  "locatedError rawError p =
     (case errPath rawError of Some q \<Rightarrow> rawError | None \<Rightarrow> rawError\<lparr>errPath := Some p\<rparr>)"

datatype 'a outcome = Raise gqlError | Return 'a

text \<open>An asynchronous iterator, as far as the engine uses it: its identity and what its
  optional \<^verbatim>\<open>return\<close> method does when called.\<close>

datatype returnMethod = NoReturnMethod | ReturnFulfils | ReturnRejects gqlError

record asyncIterator =
  iterId :: nat
  iterReturn :: returnMethod

text \<open>The values a resolver can return and the engine can complete. \<open>Num\<close> is a finite
  JavaScript number; \<open>ErrorVal\<close> is an instance of Error; \<open>Arr\<close> is a synchronous
  iterable; \<open>Promise\<close> is a pending promise made outside the engine, \<open>PromiseThen p\<close> is
  \<^verbatim>\<open>p.then(...)\<close>, whose callbacks have not run, \<open>PromiseAll\<close> and \<open>PromiseForObject\<close> are
  the engine's two aggregates;
  \<open>AsyncIterable\<close> is an asynchronous iterable, given by its iterator. Callable
  values are not represented.\<close>

datatype val =
    Undefined
  | Null
  | Bool bool
  | Num rat
  | Str string
  | ErrorVal gqlError
  | Arr "val list"
  | Obj "(string \<times> val) list"
  | Promise
  | PromiseThen val
  | PromiseAll "val list"
  | PromiseForObject "(string \<times> val) list"
  | AsyncIterable asyncIterator

fun isPromise :: "val \<Rightarrow> bool" where
  "isPromise Promise = True"
| "isPromise (PromiseThen p) = True"
| "isPromise (PromiseAll vs) = True"
| "isPromise (PromiseForObject kvs) = True"
| "isPromise v = False"

fun isAsyncIterable :: "val \<Rightarrow> bool" where
  "isAsyncIterable (AsyncIterable it) = True"
| "isAsyncIterable v = False"

fun isIterableObject :: "val \<Rightarrow> bool" where
  "isIterableObject (Arr vs) = True"
| "isIterableObject v = False"

fun isObjectLike :: "val \<Rightarrow> bool" where
  "isObjectLike Undefined = False"
| "isObjectLike Null = False"
| "isObjectLike (Bool b) = False"
| "isObjectLike (Num r) = False"
| "isObjectLike (Str s) = False"
| "isObjectLike v = True"

text \<open>JavaScript truthiness, for the results of \<^verbatim>\<open>isTypeOf\<close>.\<close>

fun truthy :: "val \<Rightarrow> bool" where
  "truthy Undefined = False"
| "truthy Null = False"
| "truthy (Bool b) = b"
| "truthy (Num r) = (r \<noteq> 0)"
| "truthy (Str s) = (s \<noteq> [])"
| "truthy v = True"

text \<open>Property access \<^verbatim>\<open>obj[key]\<close> on a plain object; a missing key reads as undefined.\<close>

fun getProperty :: "val \<Rightarrow> string \<Rightarrow> val" where
  "getProperty (Obj kvs) k = (case map_of kvs k of Some v \<Rightarrow> v | None \<Rightarrow> Undefined)"
| "getProperty v k = Undefined"

subsection \<open>Types, schema and documents\<close>

datatype gtype =
    GraphQLNonNull gtype
  | GraphQLList gtype
  | LeafType string
  | AbstractType string
  | ObjectType string

fun isNonNullType :: "gtype \<Rightarrow> bool" where
  "isNonNullType (GraphQLNonNull t) = True"
| "isNonNullType t = False"

record resolveInfo =
  infoFieldName :: string
  infoParentType :: string
  infoReturnType :: gtype
  infoPath :: path

type_synonym argValues = "(string \<times> val) list"

type_synonym fieldResolver = "val \<Rightarrow> argValues \<Rightarrow> val \<Rightarrow> resolveInfo \<Rightarrow> val outcome"

type_synonym typeResolver = "val \<Rightarrow> val \<Rightarrow> resolveInfo \<Rightarrow> string \<Rightarrow> val outcome"

record fieldDef =
  fdName :: string
  fdType :: gtype
  fdResolve :: "fieldResolver option"

record objectType =
  getFields :: "(string \<times> fieldDef) list"
  isTypeOf :: "(val \<Rightarrow> val \<Rightarrow> resolveInfo \<Rightarrow> val outcome) option"

record abstractType =
  resolveType :: "typeResolver option"

record leafType =
  serialize :: "val \<Rightarrow> val outcome"

datatype namedKind = ObjectKind | LeafKind | AbstractKind | InputKind

text \<open>A type reference is the type's name; the schema maps a name to the definition.\<close>

record schema =
  getQueryType :: "string option"
  getMutationType :: "string option"
  getSubscriptionType :: "string option"
  getType :: "string \<Rightarrow> namedKind option"
  getObjectType :: "string \<Rightarrow> objectType"
  getAbstractType :: "string \<Rightarrow> abstractType"
  getLeafType :: "string \<Rightarrow> leafType"
  isSubType :: "string \<Rightarrow> string \<Rightarrow> bool"
  getPossibleTypes :: "string \<Rightarrow> string list"

datatype operationTypeNode = QUERY | MUTATION | SUBSCRIPTION

datatype fieldNode =
  FieldNode (fnName: string) (fnAlias: "string option") (fnArguments: "(string \<times> val) list")
    (fnDirectives: "(string \<times> (string \<times> val) list) list") (fnSelectionSet: "selection list")
and selection =
    SelField fieldNode
  | SelFragmentSpread string "(string \<times> (string \<times> val) list) list"
  | SelInlineFragment "string option" "(string \<times> (string \<times> val) list) list" "selection list"

record operationDefinitionNode =
  opOperation :: operationTypeNode
  opName :: "string option"
  opVariableDefinitions :: "(string \<times> gtype) list"
  opSelectionSet :: "selection list"

record fragmentDefinitionNode =
  fragName :: string
  fragTypeCondition :: string
  fragSelectionSet :: "selection list"

datatype definitionNode =
    OperationDefinition operationDefinitionNode
  | FragmentDefinition fragmentDefinitionNode
  | OtherDefinition

type_synonym groupedFieldSet = "(string \<times> fieldNode list) list"

record patchFields =
  pfLabel :: "string option"
  pfFields :: groupedFieldSet

record fieldsAndPatches =
  cfFields :: groupedFieldSet
  cfPatches :: "patchFields list"

text \<open>The result of \<^verbatim>\<open>getVariableValues\<close>: the coerced values, or an errors array that
  holds at least one error.\<close>

datatype coercedVariableValues =
    CoercionErrors gqlError "gqlError list"
  | Coerced "(string \<times> val) list"

text \<open>The functions and constants that \<^verbatim>\<open>execute.ts\<close> imports from files that are not
  under src/ are parameters of the model: the field collector (collectFields.ts), the
  argument, directive and variable coercion (values.ts), schema validation
  (type/validate), the three meta field definitions (type/introspection) and
  \<^verbatim>\<open>inspect\<close>. \<open>getStreamDirectiveValues\<close> is \<^verbatim>\<open>getDirectiveValues\<close> applied to
  \<^verbatim>\<open>GraphQLStreamDirective\<close>.\<close>

record deps =
  assertValidSchema :: "schema \<Rightarrow> gqlError option"
  getVariableValues :: "schema \<Rightarrow> (string \<times> gtype) list \<Rightarrow> val \<Rightarrow> coercedVariableValues"
  collectFields :: "schema \<Rightarrow> (string \<times> fragmentDefinitionNode) list \<Rightarrow> (string \<times> val) list
     \<Rightarrow> string \<Rightarrow> selection list \<Rightarrow> fieldsAndPatches"
  collectSubfields :: "schema \<Rightarrow> (string \<times> fragmentDefinitionNode) list \<Rightarrow> (string \<times> val) list
     \<Rightarrow> string \<Rightarrow> fieldNode list \<Rightarrow> fieldsAndPatches"
  getArgumentValues :: "fieldDef \<Rightarrow> fieldNode \<Rightarrow> (string \<times> val) list \<Rightarrow> argValues outcome"
  getStreamDirectiveValues :: "fieldNode \<Rightarrow> (string \<times> val) list \<Rightarrow> (string \<times> val) list option outcome"
  inspect :: "val \<Rightarrow> string"
  SchemaMetaFieldDef :: fieldDef
  TypeMetaFieldDef :: fieldDef
  TypeNameMetaFieldDef :: fieldDef

subsection \<open>Execution context, payload records and the mutable state\<close>

record exeContext =
  ctxSchema :: schema
  ctxFragments :: "(string \<times> fragmentDefinitionNode) list"
  ctxRootValue :: val
  ctxContextValue :: val
  ctxOperation :: operationDefinitionNode
  ctxVariableValues :: "(string \<times> val) list"
  ctxFieldResolver :: fieldResolver
  ctxTypeResolver :: typeResolver
  ctxSubscribeFieldResolver :: fieldResolver

text \<open>What a record's data promise will compute, and the record whose data promise it
  is sequenced after (\<^verbatim>\<open>parentContext\<close>). A record object is referred to by its
  address in the store \<open>records\<close>.\<close>

datatype payloadSource =
    DeferredFields val
  | StreamedItem val
  | PulledItem nat

record dataPromise =
  dpSource :: payloadSource
  dpAfter :: "nat option"

record asyncPayloadRecord =
  prErrors :: "gqlError list"
  prLabel :: "string option"
  prPath :: "path option"
  prDataPromise :: "dataPromise option"
  prIterator :: "asyncIterator option"
  prIsCompletedIterator :: bool

text \<open>The mutable part of an execution: \<^verbatim>\<open>exeContext.errors\<close>,
  \<^verbatim>\<open>exeContext.subsequentPayloads\<close> (an array of references to records) and the record
  objects themselves.\<close>

record state =
  ctxErrors :: "gqlError list"
  subsequentPayloads :: "nat list"
  records :: "nat \<Rightarrow> asyncPayloadRecord"
  nextRecord :: nat

definition newAsyncPayloadRecord ::
  "string option \<Rightarrow> path option \<Rightarrow> asyncIterator option \<Rightarrow> asyncPayloadRecord" where
  "newAsyncPayloadRecord l p it =
     \<lparr>prErrors = [], prLabel = l, prPath = p, prDataPromise = None, prIterator = it,
      prIsCompletedIterator = False\<rparr>"

definition initialState :: state where
  "initialState =
     \<lparr>ctxErrors = [], subsequentPayloads = [],
      records = (\<lambda>rid. newAsyncPayloadRecord None None None), nextRecord = 0\<rparr>"

text \<open>\<^verbatim>\<open>new AsyncPayloadRecord(opts)\<close>: the new object gets the next free address.\<close>

definition allocRecord :: "asyncPayloadRecord \<Rightarrow> state \<Rightarrow> nat \<times> state" where
  "allocRecord r st =
     (nextRecord st, st\<lparr>records := (records st)(nextRecord st := r), nextRecord := Suc (nextRecord st)\<rparr>)"

definition addDataPromise :: "nat \<Rightarrow> dataPromise \<Rightarrow> state \<Rightarrow> state" where
  "addDataPromise rid p st =
     st\<lparr>records := (records st)(rid := (records st rid)\<lparr>prDataPromise := Some p\<rparr>)\<rparr>"

definition setIsCompletedIterator :: "nat \<Rightarrow> state \<Rightarrow> state" where
  "setIsCompletedIterator rid st =
     st\<lparr>records := (records st)(rid := (records st rid)\<lparr>prIsCompletedIterator := True\<rparr>)\<rparr>"

definition pushPayload :: "nat \<Rightarrow> state \<Rightarrow> state" where
  "pushPayload rid st = st\<lparr>subsequentPayloads := subsequentPayloads st @ [rid]\<rparr>"

text \<open>\<^verbatim>\<open>errors.push(error)\<close> where \<^verbatim>\<open>errors = asyncPayloadRecord?.errors ?? exeContext.errors\<close>:
  the active error log is the record's when a record is given, the context's otherwise.\<close>

definition pushError :: "nat option \<Rightarrow> gqlError \<Rightarrow> state \<Rightarrow> state" where
  "pushError apr e st =
     (case apr of
        None \<Rightarrow> st\<lparr>ctxErrors := ctxErrors st @ [e]\<rparr>
      | Some rid \<Rightarrow>
          st\<lparr>records := (records st)(rid := (records st rid)\<lparr>prErrors := prErrors (records st rid) @ [e]\<rparr>)\<rparr>)"


subsection \<open>Errors at a field\<close>

definition handleFieldError :: "gqlError \<Rightarrow> gtype \<Rightarrow> nat option \<Rightarrow> state \<Rightarrow> val outcome \<times> state" where
  "handleFieldError error returnType apr st =
     (if isNonNullType returnType then (Raise error, st)
      else (Return Null, pushError apr error st))"

text \<open>\<^verbatim>\<open>invariant(condition, message)\<close> of jsutils/invariant throws an Error with the
  message when the condition is false.\<close>

definition invariantError :: "string \<Rightarrow> gqlError" where
  "invariantError msg = newError msg"

text \<open>Reading a property of \<^verbatim>\<open>undefined\<close> (\<^verbatim>\<open>fieldNodes[0]\<close> of an empty array) throws a
  TypeError.\<close>

definition undefinedNodeError :: gqlError where
  "undefinedNodeError = newError ''Cannot read properties of undefined''"

subsection \<open>Field lookup and resolve info\<close>

definition getFieldDef :: "deps \<Rightarrow> schema \<Rightarrow> string \<Rightarrow> fieldNode \<Rightarrow> fieldDef option" where
  "getFieldDef d s parentType fieldNode =
     (let name = fnName fieldNode in
      if name = fdName (SchemaMetaFieldDef d) \<and> getQueryType s = Some parentType
        then Some (SchemaMetaFieldDef d)
      else if name = fdName (TypeMetaFieldDef d) \<and> getQueryType s = Some parentType
        then Some (TypeMetaFieldDef d)
      else if name = fdName (TypeNameMetaFieldDef d)
        then Some (TypeNameMetaFieldDef d)
      else map_of (getFields (getObjectType s parentType)) name)"

definition buildResolveInfo :: "exeContext \<Rightarrow> fieldDef \<Rightarrow> fieldNode list \<Rightarrow> string \<Rightarrow> path \<Rightarrow> resolveInfo" where
  "buildResolveInfo ctx fd fieldNodes parentType p =
     \<lparr>infoFieldName = fdName fd, infoParentType = parentType, infoReturnType = fdType fd,
       infoPath = p\<rparr>"

subsection \<open>The stream directive\<close>

record streamValues =
  initialCount :: val
  streamLabel :: "string option"

definition getStreamValues :: "deps \<Rightarrow> exeContext \<Rightarrow> fieldNode list \<Rightarrow> streamValues option outcome" where
  "getStreamValues d ctx fieldNodes =
     (case fieldNodes of
        [] \<Rightarrow> Raise undefinedNodeError
      | fieldNode # others \<Rightarrow>
          (case getStreamDirectiveValues d fieldNode (ctxVariableValues ctx) of
             Raise e \<Rightarrow> Raise e
           | Return None \<Rightarrow> Return None
           | Return (Some stream) \<Rightarrow>
               if map_of stream ''if'' = Some (Bool False) then Return None
               else
                 (case map_of stream ''initialCount'' of
                    Some (Num c) \<Rightarrow>
                      if c \<ge> 0
                      then Return (Some \<lparr>initialCount = Num c,
                             streamLabel = (case map_of stream ''label'' of
                                              Some (Str l) \<Rightarrow> Some l | _ \<Rightarrow> None)\<rparr>)
                      else Raise (invariantError ''initialCount must be a positive integer'')
                  | _ \<Rightarrow> Raise (invariantError ''initialCount must be a number''))))"

text \<open>The test \<^verbatim>\<open>stream && typeof stream.initialCount === 'number' && index >= stream.initialCount\<close>
  of the two list completers.\<close>

definition streamsFrom :: "streamValues option \<Rightarrow> nat \<Rightarrow> bool" where
  "streamsFrom stream index =
     (case stream of
        None \<Rightarrow> False
      | Some sv \<Rightarrow> (case initialCount sv of Num c \<Rightarrow> of_nat index \<ge> c | _ \<Rightarrow> False))"

text \<open>\<^verbatim>\<open>stream.label\<close>, read where the test above has passed.\<close>

definition labelOf :: "streamValues option \<Rightarrow> string option" where
  "labelOf stream = (case stream of Some sv \<Rightarrow> streamLabel sv | None \<Rightarrow> None)"

subsection \<open>Leaf and abstract types\<close>

definition completeLeafValue :: "deps \<Rightarrow> schema \<Rightarrow> string \<Rightarrow> val \<Rightarrow> val outcome" where
  "completeLeafValue d s typeName result =
     (case serialize (getLeafType s typeName) result of
        Raise e \<Rightarrow> Raise e
      | Return serializedResult \<Rightarrow>
          if serializedResult = Null \<or> serializedResult = Undefined
          then Raise (newError (''Expected `'' @ typeName @ ''.serialize('' @ inspect d result
                 @ '')` to return non-nullable value, returned: '' @ inspect d serializedResult))
          else Return serializedResult)"

text \<open>The branch of \<^verbatim>\<open>ensureValidRuntimeType\<close> for a \<^verbatim>\<open>GraphQLObjectType\<close> returned by
  \<^verbatim>\<open>resolveType\<close> has no counterpart: a type object is not a \<open>val\<close>.\<close>

definition ensureValidRuntimeType ::
  "deps \<Rightarrow> val \<Rightarrow> exeContext \<Rightarrow> string \<Rightarrow> resolveInfo \<Rightarrow> val \<Rightarrow> string outcome" where
  "ensureValidRuntimeType d runtimeTypeName ctx typeName info result =
     (if runtimeTypeName = Null \<or> runtimeTypeName = Undefined
      then Raise (newError (''Abstract type \"'' @ typeName
             @ ''\" must resolve to an Object type at runtime for field \"''
             @ infoParentType info @ ''.'' @ infoFieldName info @ ''\". Either the \"'' @ typeName
             @ ''\" type should provide a \"resolveType\" function or each possible type should provide an \"isTypeOf\" function.''))
      else
        (case runtimeTypeName of
           Str n \<Rightarrow>
             (case getType (ctxSchema ctx) n of
                None \<Rightarrow> Raise (newError (''Abstract type \"'' @ typeName @ ''\" was resolved to a type \"''
                          @ n @ ''\" that does not exist inside the schema.''))
              | Some k \<Rightarrow>
                  if k \<noteq> ObjectKind
                  then Raise (newError (''Abstract type \"'' @ typeName
                         @ ''\" was resolved to a non-object type \"'' @ n @ ''\".''))
                  else if \<not> isSubType (ctxSchema ctx) typeName n
                  then Raise (newError (''Runtime Object type \"'' @ n
                         @ ''\" is not a possible type for \"'' @ typeName @ ''\".''))
                  else Return n)
         | _ \<Rightarrow> Raise (newError (''Abstract type \"'' @ typeName
                  @ ''\" must resolve to an Object type at runtime for field \"''
                  @ infoParentType info @ ''.'' @ infoFieldName info @ ''\" with value ''
                  @ inspect d result @ '', received \"'' @ inspect d runtimeTypeName @ ''\".''))))"

definition invalidReturnTypeError :: "deps \<Rightarrow> string \<Rightarrow> val \<Rightarrow> gqlError" where
  "invalidReturnTypeError d typeName result =
     newError (''Expected value of type \"'' @ typeName @ ''\" but got: '' @ inspect d result @ ''.'')"

text \<open>The loop of \<^verbatim>\<open>defaultTypeResolver\<close> over the possible types; \<open>promised\<close> collects the
  promises that \<^verbatim>\<open>isTypeOf\<close> returned.\<close>

fun testPossibleTypes ::
  "schema \<Rightarrow> val \<Rightarrow> val \<Rightarrow> resolveInfo \<Rightarrow> string list \<Rightarrow> val list \<Rightarrow> val outcome" where
  "testPossibleTypes s v c info [] promised =
     Return (if promised \<noteq> [] then PromiseThen (PromiseAll promised) else Undefined)"
| "testPossibleTypes s v c info (t # ts) promised =
     (case isTypeOf (getObjectType s t) of
        None \<Rightarrow> testPossibleTypes s v c info ts promised
      | Some f \<Rightarrow>
          (case f v c info of
             Raise e \<Rightarrow> Raise e
           | Return isTypeOfResult \<Rightarrow>
               if isPromise isTypeOfResult
               then testPossibleTypes s v c info ts (promised @ [isTypeOfResult])
               else if truthy isTypeOfResult then Return (Str t)
               else testPossibleTypes s v c info ts promised))"

definition defaultTypeResolver :: "schema \<Rightarrow> typeResolver" where
  "defaultTypeResolver s v c info abstractTypeName =
     (case (if isObjectLike v then getProperty v ''__typename'' else Undefined) of
        Str n \<Rightarrow> Return (Str n)
      | _ \<Rightarrow> testPossibleTypes s v c info (getPossibleTypes s abstractTypeName) [])"

definition defaultFieldResolver :: fieldResolver where
  "defaultFieldResolver source args c info =
     (if isObjectLike source then Return (getProperty source (infoFieldName info))
      else Return Undefined)"

subsection \<open>Registering streamed payloads\<close>

text \<open>\<^verbatim>\<open>executeStreamField\<close>: the item is completed later, inside the promise chain that
  starts at \<^verbatim>\<open>Promise.resolve(promiseOrData)\<close>; synchronously the function makes the
  record, attaches the data promise and appends the record to \<^verbatim>\<open>subsequentPayloads\<close>.\<close>

definition executeStreamField ::
  "path \<Rightarrow> val \<Rightarrow> string option \<Rightarrow> nat option \<Rightarrow> state \<Rightarrow> nat \<times> state" where
  "executeStreamField p promiseOrData l parentContext st =
     (case allocRecord (newAsyncPayloadRecord l (Some p) None) st of
        (rid, st1) \<Rightarrow>
          (rid, pushPayload rid
             (addDataPromise rid \<lparr>dpSource = StreamedItem promiseOrData, dpAfter = parentContext\<rparr> st1)))"

text \<open>The function \<^verbatim>\<open>next(index)\<close> inside \<^verbatim>\<open>executeStreamIterator\<close>, up to the call of
  \<^verbatim>\<open>iterator.next()\<close>.\<close>

definition executeStreamIterator ::
  "nat \<Rightarrow> asyncIterator \<Rightarrow> path option \<Rightarrow> string option \<Rightarrow> nat option \<Rightarrow> state \<Rightarrow> nat \<times> state" where
  "executeStreamIterator index iterator p l parentContext st =
     (case allocRecord (newAsyncPayloadRecord l (Some (addPath p (Index index) None)) (Some iterator)) st of
        (rid, st1) \<Rightarrow>
          (rid, pushPayload rid
             (addDataPromise rid \<lparr>dpSource = PulledItem index, dpAfter = parentContext\<rparr> st1)))"

subsection \<open>Executing fields\<close>

text \<open>The completer, field executor and list, object and fragment executors of the source
  call each other recursively. In the model every function of the cycle but
  \<open>completeValue\<close> takes the completer \<open>cv\<close> it calls as an argument, and
  \<open>completeValue\<close> closes the cycle by recursion on a bound on the depth of nested
  completions: \<open>None\<close> means the bound was too small, never that the source fails.\<close>

type_synonym completer =
  "gtype \<Rightarrow> fieldNode list \<Rightarrow> resolveInfo \<Rightarrow> path \<Rightarrow> val \<Rightarrow> nat option \<Rightarrow> state
     \<Rightarrow> (val outcome \<times> state) option"

definition executeField ::
  "completer \<Rightarrow> deps \<Rightarrow> exeContext \<Rightarrow> string \<Rightarrow> val \<Rightarrow> fieldNode list \<Rightarrow> path \<Rightarrow> nat option
     \<Rightarrow> state \<Rightarrow> (val outcome \<times> state) option" where
  "executeField cv d ctx parentType source fieldNodes p apr st =
     (case fieldNodes of
        [] \<Rightarrow> Some (Raise undefinedNodeError, st)
      | fieldNode # others \<Rightarrow>
          (case getFieldDef d (ctxSchema ctx) parentType fieldNode of
             None \<Rightarrow> Some (Return Undefined, st)
           | Some fd \<Rightarrow>
               (let rt = fdType fd;
                    resolveFn = (case fdResolve fd of Some f \<Rightarrow> f | None \<Rightarrow> ctxFieldResolver ctx);
                    info = buildResolveInfo ctx fd fieldNodes parentType p
                in case getArgumentValues d fd fieldNode (ctxVariableValues ctx) of
                     Raise rawError \<Rightarrow>
                       Some (handleFieldError (locatedError rawError (pathToArray p)) rt apr st)
                   | Return args \<Rightarrow>
                       (case resolveFn source args (ctxContextValue ctx) info of
                          Raise rawError \<Rightarrow>
                            Some (handleFieldError (locatedError rawError (pathToArray p)) rt apr st)
                        | Return result \<Rightarrow>
                            if isPromise result
                            then Some (Return (PromiseThen (PromiseThen result)), st)
                            else
                              (case cv rt fieldNodes info p result apr st of
                                 None \<Rightarrow> None
                               | Some (Raise rawError, st1) \<Rightarrow>
                                   Some (handleFieldError (locatedError rawError (pathToArray p)) rt apr st1)
                               | Some (Return completed, st1) \<Rightarrow>
                                   if isPromise completed
                                   then Some (Return (PromiseThen completed), st1)
                                   else Some (Return completed, st1))))))"

text \<open>The loop of \<^verbatim>\<open>executeFields\<close> over the entries of the grouped field set, in order.\<close>

fun executeFieldsLoop ::
  "completer \<Rightarrow> deps \<Rightarrow> exeContext \<Rightarrow> string \<Rightarrow> val \<Rightarrow> path option \<Rightarrow> groupedFieldSet
     \<Rightarrow> nat option \<Rightarrow> state \<Rightarrow> ((string \<times> val) list outcome \<times> state) option" where
  "executeFieldsLoop cv d ctx parentType sourceValue p [] apr st = Some (Return [], st)"
| "executeFieldsLoop cv d ctx parentType sourceValue p ((responseName, fieldNodes) # fieldSet) apr st =
     (case executeField cv d ctx parentType sourceValue fieldNodes
             (addPath p (Key responseName) (Some parentType)) apr st of
        None \<Rightarrow> None
      | Some (Raise e, st1) \<Rightarrow> Some (Raise e, st1)
      | Some (Return result, st1) \<Rightarrow>
          (case executeFieldsLoop cv d ctx parentType sourceValue p fieldSet apr st1 of
             None \<Rightarrow> None
           | Some (Raise e, st2) \<Rightarrow> Some (Raise e, st2)
           | Some (Return results, st2) \<Rightarrow>
               Some (Return (if result \<noteq> Undefined then (responseName, result) # results
                              else results), st2)))"

definition executeFields ::
  "completer \<Rightarrow> deps \<Rightarrow> exeContext \<Rightarrow> string \<Rightarrow> val \<Rightarrow> path option \<Rightarrow> groupedFieldSet
     \<Rightarrow> nat option \<Rightarrow> state \<Rightarrow> (val outcome \<times> state) option" where
  "executeFields cv d ctx parentType sourceValue p fieldSet apr st =
     (case executeFieldsLoop cv d ctx parentType sourceValue p fieldSet apr st of
        None \<Rightarrow> None
      | Some (Raise e, st1) \<Rightarrow> Some (Raise e, st1)
      | Some (Return results, st1) \<Rightarrow>
          Some (Return (if list_ex (\<lambda>(k, v). isPromise v) results
                        then PromiseForObject results else Obj results), st1))"

text \<open>Modelled from the spec: \<^verbatim>\<open>promiseReduce\<close> of jsutils/promiseReduce (not under src/),
  as \<^verbatim>\<open>executeFieldsSerially\<close> uses it: each next field starts only after the previous
  one has settled. Once a field's result is a promise the remaining fields run in its
  continuation, so the synchronous part ends there; the continuations chained for the
  remaining fields are represented by the one \<open>PromiseThen\<close>.\<close>

fun executeFieldsSeriallyLoop ::
  "completer \<Rightarrow> deps \<Rightarrow> exeContext \<Rightarrow> string \<Rightarrow> val \<Rightarrow> path option \<Rightarrow> groupedFieldSet
     \<Rightarrow> (string \<times> val) list \<Rightarrow> state \<Rightarrow> (val outcome \<times> state) option" where
  "executeFieldsSeriallyLoop cv d ctx parentType sourceValue p [] results st =
     Some (Return (Obj results), st)"
| "executeFieldsSeriallyLoop cv d ctx parentType sourceValue p ((responseName, fieldNodes) # fieldSet)
     results st =
     (case executeField cv d ctx parentType sourceValue fieldNodes
             (addPath p (Key responseName) (Some parentType)) None st of
        None \<Rightarrow> None
      | Some (Raise e, st1) \<Rightarrow> Some (Raise e, st1)
      | Some (Return result, st1) \<Rightarrow>
          if result = Undefined
          then executeFieldsSeriallyLoop cv d ctx parentType sourceValue p fieldSet results st1
          else if isPromise result then Some (Return (PromiseThen result), st1)
          else executeFieldsSeriallyLoop cv d ctx parentType sourceValue p fieldSet
                 (results @ [(responseName, result)]) st1)"

definition executeFieldsSerially ::
  "completer \<Rightarrow> deps \<Rightarrow> exeContext \<Rightarrow> string \<Rightarrow> val \<Rightarrow> path option \<Rightarrow> groupedFieldSet
     \<Rightarrow> state \<Rightarrow> (val outcome \<times> state) option" where
  "executeFieldsSerially cv d ctx parentType sourceValue p fieldSet st =
     executeFieldsSeriallyLoop cv d ctx parentType sourceValue p fieldSet [] st"

subsection \<open>Deferred fragments\<close>

text \<open>\<^verbatim>\<open>executeDeferredFragment\<close> runs the fragment's fields at once, under the new record,
  and keeps the result for the record's data promise.\<close>

definition executeDeferredFragment ::
  "completer \<Rightarrow> deps \<Rightarrow> exeContext \<Rightarrow> string \<Rightarrow> val \<Rightarrow> groupedFieldSet \<Rightarrow> string option
     \<Rightarrow> path option \<Rightarrow> nat option \<Rightarrow> state \<Rightarrow> state option" where
  "executeDeferredFragment cv d ctx parentType sourceValue fieldSet l p parentContext st =
     (case allocRecord (newAsyncPayloadRecord l p None) st of
        (rid, st1) \<Rightarrow>
          (case executeFields cv d ctx parentType sourceValue p fieldSet (Some rid) st1 of
             None \<Rightarrow> None
           | Some (Raise e, st2) \<Rightarrow>
               Some (pushPayload rid (addDataPromise rid
                       \<lparr>dpSource = DeferredFields Null, dpAfter = parentContext\<rparr>
                       (pushError (Some rid) e st2)))
           | Some (Return promiseOrData, st2) \<Rightarrow>
               Some (pushPayload rid (addDataPromise rid
                       \<lparr>dpSource = DeferredFields promiseOrData, dpAfter = parentContext\<rparr> st2))))"

text \<open>The loop \<^verbatim>\<open>for (const patch of patches)\<close> of \<^verbatim>\<open>executeOperation\<close> and
  \<^verbatim>\<open>collectAndExecuteSubfields\<close>.\<close>

fun executeDeferredFragments ::
  "completer \<Rightarrow> deps \<Rightarrow> exeContext \<Rightarrow> string \<Rightarrow> val \<Rightarrow> path option \<Rightarrow> nat option
     \<Rightarrow> patchFields list \<Rightarrow> state \<Rightarrow> state option" where
  "executeDeferredFragments cv d ctx parentType sourceValue p parentContext [] st = Some st"
| "executeDeferredFragments cv d ctx parentType sourceValue p parentContext (patch # patches) st =
     (case executeDeferredFragment cv d ctx parentType sourceValue (pfFields patch) (pfLabel patch)
             p parentContext st of
        None \<Rightarrow> None
      | Some st1 \<Rightarrow> executeDeferredFragments cv d ctx parentType sourceValue p parentContext patches st1)"

subsection \<open>Completing objects\<close>

definition collectAndExecuteSubfields ::
  "completer \<Rightarrow> deps \<Rightarrow> exeContext \<Rightarrow> string \<Rightarrow> fieldNode list \<Rightarrow> path \<Rightarrow> val \<Rightarrow> nat option
     \<Rightarrow> state \<Rightarrow> (val outcome \<times> state) option" where
  "collectAndExecuteSubfields cv d ctx rt fieldNodes p result apr st =
     (let sub = collectSubfields d (ctxSchema ctx) (ctxFragments ctx) (ctxVariableValues ctx) rt fieldNodes
      in case executeFields cv d ctx rt result (Some p) (cfFields sub) apr st of
           None \<Rightarrow> None
         | Some (Raise e, st1) \<Rightarrow> Some (Raise e, st1)
         | Some (Return subFields, st1) \<Rightarrow>
             (case executeDeferredFragments cv d ctx rt result (Some p) apr (cfPatches sub) st1 of
                None \<Rightarrow> None
              | Some st2 \<Rightarrow> Some (Return subFields, st2)))"

definition completeObjectValue ::
  "completer \<Rightarrow> deps \<Rightarrow> exeContext \<Rightarrow> string \<Rightarrow> fieldNode list \<Rightarrow> resolveInfo \<Rightarrow> path \<Rightarrow> val
     \<Rightarrow> nat option \<Rightarrow> state \<Rightarrow> (val outcome \<times> state) option" where
  "completeObjectValue cv d ctx rt fieldNodes info p result apr st =
     (case isTypeOf (getObjectType (ctxSchema ctx) rt) of
        None \<Rightarrow> collectAndExecuteSubfields cv d ctx rt fieldNodes p result apr st
      | Some f \<Rightarrow>
          (case f result (ctxContextValue ctx) info of
             Raise e \<Rightarrow> Some (Raise e, st)
           | Return isTypeOfResult \<Rightarrow>
               if isPromise isTypeOfResult then Some (Return (PromiseThen isTypeOfResult), st)
               else if \<not> truthy isTypeOfResult
               then Some (Raise (invalidReturnTypeError d rt result), st)
               else collectAndExecuteSubfields cv d ctx rt fieldNodes p result apr st))"

definition completeAbstractValue ::
  "completer \<Rightarrow> deps \<Rightarrow> exeContext \<Rightarrow> string \<Rightarrow> fieldNode list \<Rightarrow> resolveInfo \<Rightarrow> path \<Rightarrow> val
     \<Rightarrow> nat option \<Rightarrow> state \<Rightarrow> (val outcome \<times> state) option" where
  "completeAbstractValue cv d ctx rt fieldNodes info p result apr st =
     (let resolveTypeFn = (case resolveType (getAbstractType (ctxSchema ctx) rt) of
                             Some f \<Rightarrow> f | None \<Rightarrow> ctxTypeResolver ctx)
      in case resolveTypeFn result (ctxContextValue ctx) info rt of
           Raise e \<Rightarrow> Some (Raise e, st)
         | Return runtimeType \<Rightarrow>
             if isPromise runtimeType then Some (Return (PromiseThen runtimeType), st)
             else
               (case ensureValidRuntimeType d runtimeType ctx rt info result of
                  Raise e \<Rightarrow> Some (Raise e, st)
                | Return objectTypeName \<Rightarrow>
                    completeObjectValue cv d ctx objectTypeName fieldNodes info p result apr st))"

subsection \<open>Completing lists\<close>

text \<open>The loop \<^verbatim>\<open>for (const item of result)\<close> of \<^verbatim>\<open>completeListValue\<close>: \<open>index\<close> is the
  loop counter and \<open>previous\<close> is \<^verbatim>\<open>previousAsyncPayloadRecord\<close>.\<close>

fun completeListItems ::
  "completer \<Rightarrow> deps \<Rightarrow> exeContext \<Rightarrow> gtype \<Rightarrow> fieldNode list \<Rightarrow> resolveInfo \<Rightarrow> path
     \<Rightarrow> streamValues option \<Rightarrow> nat option \<Rightarrow> val list \<Rightarrow> nat \<Rightarrow> nat option \<Rightarrow> state
     \<Rightarrow> (val list outcome \<times> state) option" where
  "completeListItems cv d ctx itemType fieldNodes info p stream apr [] index previous st =
     Some (Return [], st)"
| "completeListItems cv d ctx itemType fieldNodes info p stream apr (item # items) index previous st =
     (let itemPath = addPath (Some p) (Index index) None in
      if streamsFrom stream index
      then
        (case executeStreamField itemPath item (labelOf stream)
                previous st of
           (rid, st1) \<Rightarrow>
             completeListItems cv d ctx itemType fieldNodes info p stream apr items (Suc index)
               (Some rid) st1)
      else
        (case (case (if isPromise item then Some (Return (PromiseThen item), st)
                     else cv itemType fieldNodes info itemPath item apr st) of
                 None \<Rightarrow> None
               | Some (Raise rawError, st1) \<Rightarrow>
                   Some (handleFieldError (locatedError rawError (pathToArray itemPath)) itemType apr st1)
               | Some (Return completedItem, st1) \<Rightarrow>
                   Some (Return (if isPromise completedItem then PromiseThen completedItem
                                 else completedItem), st1)) of
           None \<Rightarrow> None
         | Some (Raise e, st2) \<Rightarrow> Some (Raise e, st2)
         | Some (Return v, st2) \<Rightarrow>
             (case completeListItems cv d ctx itemType fieldNodes info p stream apr items (Suc index)
                     previous st2 of
                None \<Rightarrow> None
              | Some (Raise e, st3) \<Rightarrow> Some (Raise e, st3)
              | Some (Return vs, st3) \<Rightarrow> Some (Return (v # vs), st3))))"

text \<open>\<^verbatim>\<open>completeAsyncIteratorValue\<close>, up to the first call of \<^verbatim>\<open>iterator.next()\<close>: the
  executor of the new promise calls \<^verbatim>\<open>next(0, [])\<close> at once, which starts the stream
  when \<^verbatim>\<open>initialCount\<close> is 0.\<close>

definition completeAsyncIteratorValue ::
  "deps \<Rightarrow> exeContext \<Rightarrow> fieldNode list \<Rightarrow> path \<Rightarrow> asyncIterator \<Rightarrow> nat option \<Rightarrow> state
     \<Rightarrow> val outcome \<times> state" where
  "completeAsyncIteratorValue d ctx fieldNodes p iterator apr st =
     (case getStreamValues d ctx fieldNodes of
        Raise e \<Rightarrow> (Raise e, st)
      | Return stream \<Rightarrow>
          if streamsFrom stream 0
          then (Return (PromiseThen Promise),
                snd (executeStreamIterator 0 iterator (Some p)
                       (labelOf stream) apr st))
          else (Return (PromiseThen Promise), st))"

definition completeListValue ::
  "completer \<Rightarrow> deps \<Rightarrow> exeContext \<Rightarrow> gtype \<Rightarrow> fieldNode list \<Rightarrow> resolveInfo \<Rightarrow> path \<Rightarrow> val
     \<Rightarrow> nat option \<Rightarrow> state \<Rightarrow> (val outcome \<times> state) option" where
  "completeListValue cv d ctx itemType fieldNodes info p result apr st =
     (case result of
        AsyncIterable iterator \<Rightarrow> Some (completeAsyncIteratorValue d ctx fieldNodes p iterator apr st)
      | Arr items \<Rightarrow>
          (case getStreamValues d ctx fieldNodes of
             Raise e \<Rightarrow> Some (Raise e, st)
           | Return stream \<Rightarrow>
               (case completeListItems cv d ctx itemType fieldNodes info p stream apr items 0 apr st of
                  None \<Rightarrow> None
                | Some (Raise e, st1) \<Rightarrow> Some (Raise e, st1)
                | Some (Return completedResults, st1) \<Rightarrow>
                    Some (Return (if list_ex isPromise completedResults
                                  then PromiseAll completedResults else Arr completedResults), st1)))
      | _ \<Rightarrow>
          Some (Raise (newError (''Expected Iterable, but did not find one for field \"''
                  @ infoParentType info @ ''.'' @ infoFieldName info @ ''\".'')), st))"

subsection \<open>completeValue\<close>

definition nonNullViolation :: "resolveInfo \<Rightarrow> gqlError" where
  "nonNullViolation info =
     newError (''Cannot return null for non-nullable field '' @ infoParentType info @ ''.''
               @ infoFieldName info @ ''.'')"

text \<open>\<^verbatim>\<open>result instanceof Error\<close> and \<^verbatim>\<open>isNonNullType(returnType)\<close> with
  \<^verbatim>\<open>returnType.ofType\<close>.\<close>

fun asError :: "val \<Rightarrow> gqlError option" where
  "asError (ErrorVal e) = Some e"
| "asError v = None"

fun nonNullOfType :: "gtype \<Rightarrow> gtype option" where
  "nonNullOfType (GraphQLNonNull t) = Some t"
| "nonNullOfType t = None"

fun completeValue :: "nat \<Rightarrow> deps \<Rightarrow> exeContext \<Rightarrow> completer" where
  "completeValue 0 d ctx rt fieldNodes info p result apr st = None"
| "completeValue (Suc n) d ctx rt fieldNodes info p result apr st =
     (case asError result of
        Some e \<Rightarrow> Some (Raise e, st)
      | None \<Rightarrow>
        (case nonNullOfType rt of
           Some ofType \<Rightarrow>
             (case completeValue n d ctx ofType fieldNodes info p result apr st of
                None \<Rightarrow> None
              | Some (Raise e, st1) \<Rightarrow> Some (Raise e, st1)
              | Some (Return completed, st1) \<Rightarrow>
                  if completed = Null then Some (Raise (nonNullViolation info), st1)
                  else Some (Return completed, st1))
         | None \<Rightarrow>
           if result = Null \<or> result = Undefined then Some (Return Null, st)
           else
             (case rt of
                GraphQLList ofType \<Rightarrow>
                  completeListValue (completeValue n d ctx) d ctx ofType fieldNodes info p result apr st
              | LeafType typeName \<Rightarrow>
                  Some (completeLeafValue d (ctxSchema ctx) typeName result, st)
              | AbstractType typeName \<Rightarrow>
                  completeAbstractValue (completeValue n d ctx) d ctx typeName fieldNodes info p result apr st
              | ObjectType typeName \<Rightarrow>
                  completeObjectValue (completeValue n d ctx) d ctx typeName fieldNodes info p result apr st
              | GraphQLNonNull ofType \<Rightarrow>
                  Some (Raise (invariantError ''Cannot complete value of unexpected output type''), st))))"

subsection \<open>Settlement of a pending field or list item\<close>






subsection \<open>Streaming an asynchronous iterator\<close>

text \<open>The callback of \<^verbatim>\<open>iterator.next().then(...)\<close> inside \<^verbatim>\<open>executeStreamIterator\<close>, for
  the record \<open>rid\<close> made for \<open>index\<close>, run by the event loop when the iterator delivers
  \<^verbatim>\<open>{ value, done }\<close>; together with the \<^verbatim>\<open>catch\<close> at the end of the chain, which logs an
  error that \<^verbatim>\<open>handleFieldError\<close> re-raised. It returns the data the promise settles with
  (a promise when the completion is itself pending, and then the next pull waits for it).\<close>

definition streamItemDelivered ::
  "completer \<Rightarrow> deps \<Rightarrow> exeContext \<Rightarrow> fieldNode list \<Rightarrow> resolveInfo \<Rightarrow> gtype \<Rightarrow> path option
     \<Rightarrow> string option \<Rightarrow> nat option \<Rightarrow> asyncIterator \<Rightarrow> nat \<Rightarrow> nat \<Rightarrow> val \<Rightarrow> bool \<Rightarrow> state
     \<Rightarrow> (val \<times> state) option" where
  "streamItemDelivered cv d ctx fieldNodes info itemType p l parentContext iterator index rid dat
     finished st =
     (if finished then Some (Null, setIsCompletedIterator rid st)
      else
        (let fieldPath = addPath p (Index index) None
         in case cv itemType fieldNodes info fieldPath dat (Some rid) st of
              None \<Rightarrow> None
            | Some (Return completedItem, st1) \<Rightarrow>
                if isPromise completedItem then Some (PromiseThen completedItem, st1)
                else Some (completedItem,
                       snd (executeStreamIterator (Suc index) iterator p l parentContext st1))
            | Some (Raise rawError, st1) \<Rightarrow>
                (case handleFieldError (locatedError rawError (pathToArray fieldPath)) itemType
                        (Some rid) st1 of
                   (Raise error, st2) \<Rightarrow> Some (Null, pushError (Some rid) error st2)
                 | (Return v, st2) \<Rightarrow>
                     Some (Null, snd (executeStreamIterator (Suc index) iterator p l parentContext st2)))))"

subsection \<open>Responses\<close>

text \<open>A response object, initial or patch: a key of the JavaScript object is present
  (\<open>Some\<close>) or absent (\<open>None\<close>); the value of \<^verbatim>\<open>data\<close> can itself be null.\<close>

record executionResult =
  resErrors :: "gqlError list option"
  resData :: "val option"
  resPath :: "pathKey list option"
  resLabel :: "string option"
  resHasNext :: "bool option"

definition emptyResult :: executionResult where
  "emptyResult = \<lparr>resErrors = None, resData = None, resPath = None, resLabel = None, resHasNext = None\<rparr>"

definition buildResponse :: "val \<Rightarrow> gqlError list \<Rightarrow> executionResult" where
  "buildResponse dat errs =
     (if length errs = 0 then emptyResult\<lparr>resData := Some dat\<rparr>
      else emptyResult\<lparr>resErrors := Some errs, resData := Some dat\<rparr>)"

subsection \<open>Building the execution context\<close>

record executionArgs =
  argSchema :: schema
  argDocument :: "definitionNode list option"
  argRootValue :: val
  argContextValue :: val
  argVariableValues :: val
  argOperationName :: "string option"
  argFieldResolver :: "fieldResolver option"
  argTypeResolver :: "typeResolver option"
  argSubscribeFieldResolver :: "fieldResolver option"

text \<open>\<^verbatim>\<open>assertValidExecutionArguments\<close>: the error it throws, if any. A document is
  \<open>None\<close> when the caller passed none.\<close>

definition assertValidExecutionArguments ::
  "deps \<Rightarrow> schema \<Rightarrow> definitionNode list option \<Rightarrow> val \<Rightarrow> gqlError option" where
  "assertValidExecutionArguments d s document rawVariableValues =
     (case document of
        None \<Rightarrow> Some (newError ''Must provide document.'')
      | Some definitions \<Rightarrow>
          (case assertValidSchema d s of
             Some e \<Rightarrow> Some e
           | None \<Rightarrow>
               if rawVariableValues = Null \<or> rawVariableValues = Undefined \<or> isObjectLike rawVariableValues
               then None
               else Some (newError ''Variables must be provided as an Object where each property is a variable value. Perhaps look to see if an unparsed JSON string was provided.'')))"

text \<open>The loop of \<^verbatim>\<open>buildExecutionContext\<close> over \<^verbatim>\<open>document.definitions\<close>, with the two
  variables \<^verbatim>\<open>operation\<close> and \<^verbatim>\<open>fragments\<close> it assigns; \<open>Inl\<close> is the early return.\<close>

fun selectOperation ::
  "string option \<Rightarrow> definitionNode list \<Rightarrow> operationDefinitionNode option
     \<Rightarrow> (string \<times> fragmentDefinitionNode) list
     \<Rightarrow> gqlError list + operationDefinitionNode option \<times> (string \<times> fragmentDefinitionNode) list" where
  "selectOperation operationName [] operation fragments = Inr (operation, fragments)"
| "selectOperation operationName (OperationDefinition od # ds) operation fragments =
     (case operationName of
        None \<Rightarrow>
          (case operation of
             Some previous \<Rightarrow>
               Inl [newError ''Must provide operation name if query contains multiple operations.'']
           | None \<Rightarrow> selectOperation operationName ds (Some od) fragments)
      | Some wanted \<Rightarrow>
          if opName od = Some wanted then selectOperation operationName ds (Some od) fragments
          else selectOperation operationName ds operation fragments)"
| "selectOperation operationName (FragmentDefinition fd # ds) operation fragments =
     selectOperation operationName ds operation
       ((fragName fd, fd) # filter (\<lambda>(k, v). k \<noteq> fragName fd) fragments)"
| "selectOperation operationName (OtherDefinition # ds) operation fragments =
     selectOperation operationName ds operation fragments"

definition buildExecutionContext ::
  "deps \<Rightarrow> executionArgs \<Rightarrow> definitionNode list \<Rightarrow> gqlError list + exeContext" where
  "buildExecutionContext d args definitions =
     (case selectOperation (argOperationName args) definitions None [] of
        Inl errs \<Rightarrow> Inl errs
      | Inr (None, fragments) \<Rightarrow>
          (case argOperationName args of
             Some operationName \<Rightarrow> Inl [newError (''Unknown operation named \"'' @ operationName @ ''\".'')]
           | None \<Rightarrow> Inl [newError ''Must provide an operation.''])
      | Inr (Some operation, fragments) \<Rightarrow>
          (case getVariableValues d (argSchema args) (opVariableDefinitions operation)
                  (if argVariableValues args = Null \<or> argVariableValues args = Undefined then Obj []
                   else argVariableValues args) of
             CoercionErrors e es \<Rightarrow> Inl (e # es)
           | Coerced coerced \<Rightarrow>
               Inr \<lparr>ctxSchema = argSchema args, ctxFragments = fragments,
                    ctxRootValue = argRootValue args, ctxContextValue = argContextValue args,
                    ctxOperation = operation, ctxVariableValues = coerced,
                    ctxFieldResolver = (case argFieldResolver args of Some f \<Rightarrow> f | None \<Rightarrow> defaultFieldResolver),
                    ctxTypeResolver = (case argTypeResolver args of Some f \<Rightarrow> f
                                       | None \<Rightarrow> defaultTypeResolver (argSchema args)),
                    ctxSubscribeFieldResolver =
                      (case argSubscribeFieldResolver args of Some f \<Rightarrow> f | None \<Rightarrow> defaultFieldResolver)\<rparr>))"

subsection \<open>Executing the operation\<close>

fun getRootType :: "schema \<Rightarrow> operationTypeNode \<Rightarrow> string option" where
  "getRootType s QUERY = getQueryType s"
| "getRootType s MUTATION = getMutationType s"
| "getRootType s SUBSCRIPTION = getSubscriptionType s"

fun operationTypeName :: "operationTypeNode \<Rightarrow> string" where
  "operationTypeName QUERY = ''query''"
| "operationTypeName MUTATION = ''mutation''"
| "operationTypeName SUBSCRIPTION = ''subscription''"

definition executeOperation ::
  "nat \<Rightarrow> deps \<Rightarrow> exeContext \<Rightarrow> operationDefinitionNode \<Rightarrow> val \<Rightarrow> state
     \<Rightarrow> (val outcome \<times> state) option" where
  "executeOperation n d ctx operation rootValue st =
     (case getRootType (ctxSchema ctx) (opOperation operation) of
        None \<Rightarrow>
          Some (Raise (newError (''Schema is not configured to execute ''
                  @ operationTypeName (opOperation operation) @ '' operation.'')), st)
      | Some rootType \<Rightarrow>
          (let collected = collectFields d (ctxSchema ctx) (ctxFragments ctx) (ctxVariableValues ctx)
                             rootType (opSelectionSet operation)
           in case (case opOperation operation of
                      QUERY \<Rightarrow> executeFields (completeValue n d ctx) d ctx rootType rootValue None
                                 (cfFields collected) None st
                    | MUTATION \<Rightarrow> executeFieldsSerially (completeValue n d ctx) d ctx rootType rootValue
                                    None (cfFields collected) st
                    | SUBSCRIPTION \<Rightarrow> executeFields (completeValue n d ctx) d ctx rootType rootValue
                                        None (cfFields collected) None st) of
                None \<Rightarrow> None
              | Some (Raise e, st1) \<Rightarrow> Some (Raise e, st1)
              | Some (Return result, st1) \<Rightarrow>
                  (case executeDeferredFragments (completeValue n d ctx) d ctx rootType rootValue None
                          None (cfPatches collected) st1 of
                     None \<Rightarrow> None
                   | Some st2 \<Rightarrow> Some (Return result, st2))))"

subsection \<open>The subsequent-payload yielder\<close>

datatype iteratorResult = Yield executionResult | Done

text \<open>The closure that \<^verbatim>\<open>yieldSubsequentPayloads\<close> returns: the execution state it shares
  with the engine, the initial result, its two flags, and a log of the calls of
  \<^verbatim>\<open>return\<close> it has made on source iterators (the \<open>iterId\<close> of each, in order).\<close>

record yielder =
  yState :: state
  yInitialResult :: executionResult
  hasReturnedInitialResult :: bool
  isDone :: bool
  returnCalls :: "nat list"

definition yieldSubsequentPayloads :: "state \<Rightarrow> executionResult \<Rightarrow> yielder" where
  "yieldSubsequentPayloads st initialResult =
     \<lparr>yState = st, yInitialResult = initialResult, hasReturnedInitialResult = False,
      isDone = False, returnCalls = []\<rparr>"

datatype raceStep = Resolve iteratorResult | RaceAgain

text \<open>The callback that \<^verbatim>\<open>race\<close> attaches to every pending record's data promise, run
  for the record \<open>rid\<close> whose promise settled first with \<open>dat\<close>.\<close>

definition raceSettled :: "nat \<Rightarrow> val \<Rightarrow> state \<Rightarrow> raceStep \<times> state" where
  "raceSettled rid dat st =
     (if length (subsequentPayloads st) = 0 then (Resolve Done, st)
      else if rid \<notin> set (subsequentPayloads st) then (RaceAgain, st)
      else
        (let st1 = st\<lparr>subsequentPayloads := remove1 rid (subsequentPayloads st)\<rparr>;
             r = records st rid
         in if prIsCompletedIterator r then (RaceAgain, st1)
            else
              (Resolve (Yield
                 \<lparr>resErrors = (if length (prErrors r) > 0 then Some (prErrors r) else None),
                  resData = Some dat,
                  resPath = Some (case prPath r of Some p \<Rightarrow> pathToArray p | None \<Rightarrow> []),
                  resLabel = (case prLabel r of Some l \<Rightarrow> (if l \<noteq> [] then Some l else None) | None \<Rightarrow> None),
                  resHasNext = Some (length (subsequentPayloads st1) > 0)\<rparr>), st1)))"

text \<open>\<^verbatim>\<open>race()\<close>: \<open>settlements\<close> is the order in which the event loop settles data
  promises, each with the value it settles with; when it is used up the race stays
  pending (\<open>None\<close>).\<close>

fun race :: "(nat \<times> val) list \<Rightarrow> state \<Rightarrow> iteratorResult option \<times> state" where
  "race settlements st =
     (if length (subsequentPayloads st) = 0
      then (Some (Yield (emptyResult\<lparr>resHasNext := Some False\<rparr>)), st)
      else
        (case settlements of
           [] \<Rightarrow> (None, st)
         | (rid, dat) # later \<Rightarrow>
             (case raceSettled rid dat st of
                (Resolve r, st1) \<Rightarrow> (Some r, st1)
              | (RaceAgain, st1) \<Rightarrow> race later st1)))"

definition yielderNext :: "(nat \<times> val) list \<Rightarrow> yielder \<Rightarrow> iteratorResult option \<times> yielder" where
  "yielderNext settlements y =
     (if \<not> hasReturnedInitialResult y
      then (Some (Yield ((yInitialResult y)\<lparr>resHasNext := Some True\<rparr>)),
            y\<lparr>hasReturnedInitialResult := True\<rparr>)
      else if length (subsequentPayloads (yState y)) = 0 \<or> isDone y then (Some Done, y)
      else (case race settlements (yState y) of (r, st1) \<Rightarrow> (r, y\<lparr>yState := st1\<rparr>)))"

text \<open>\<^verbatim>\<open>asyncPayloadRecord.iterator?.return?.()\<close> for one record: the iterator asked, if
  any, and the rejection of the promise it returns, if any.\<close>

definition returnIterator :: "asyncPayloadRecord \<Rightarrow> (nat \<times> gqlError option) option" where
  "returnIterator r =
     (case prIterator r of
        None \<Rightarrow> None
      | Some it \<Rightarrow>
          (case iterReturn it of
             NoReturnMethod \<Rightarrow> None
           | ReturnFulfils \<Rightarrow> Some (iterId it, None)
           | ReturnRejects e \<Rightarrow> Some (iterId it, Some e)))"

text \<open>\<^verbatim>\<open>return()\<close>: every pending record's iterator is asked to return; the awaited
  \<^verbatim>\<open>Promise.all\<close> rejects with the first rejection, and then \<^verbatim>\<open>isDone\<close> is not set.\<close>

definition yielderReturn :: "yielder \<Rightarrow> iteratorResult outcome \<times> yielder" where
  "yielderReturn y =
     (let asked = List.map_filter (\<lambda>rid. returnIterator (records (yState y) rid))
                    (subsequentPayloads (yState y));
          y1 = y\<lparr>returnCalls := returnCalls y @ map fst asked\<rparr>
      in case List.map_filter snd asked of
           [] \<Rightarrow> (Return Done, y1\<lparr>isDone := True\<rparr>)
         | e # es \<Rightarrow> (Raise e, y1))"

definition yielderThrow :: "gqlError \<Rightarrow> yielder \<Rightarrow> iteratorResult outcome \<times> yielder" where
  "yielderThrow error y =
     (let asked = List.map_filter (\<lambda>rid. returnIterator (records (yState y) rid))
                    (subsequentPayloads (yState y));
          y1 = y\<lparr>returnCalls := returnCalls y @ map fst asked\<rparr>
      in case List.map_filter snd asked of
           [] \<Rightarrow> (Raise error, y1\<lparr>isDone := True\<rparr>)
         | e # es \<Rightarrow> (Raise e, y1))"

subsection \<open>execute and executeSync\<close>

text \<open>\<^verbatim>\<open>document.definitions\<close>, read after the assertion that a document was given.\<close>

definition documentDefinitions :: "executionArgs \<Rightarrow> definitionNode list" where
  "documentDefinitions args = (case argDocument args of Some ds \<Rightarrow> ds | None \<Rightarrow> [])"

text \<open>What \<^verbatim>\<open>execute\<close> returns: a response, a promise (the pending data and the state at
  that moment), or the yielder.\<close>

datatype executeResult =
    PlainResult executionResult
  | PromiseResult val state
  | AsyncGenerator yielder

text \<open>The two callbacks of \<^verbatim>\<open>result.then(...)\<close> in \<^verbatim>\<open>execute\<close>, run by the event loop in
  the state of that moment. The first is also what \<^verbatim>\<open>execute\<close> does with a result that is
  not a promise, and the second what its \<^verbatim>\<open>catch\<close> block does.\<close>

definition executeFulfilled :: "state \<Rightarrow> val \<Rightarrow> executeResult" where
  "executeFulfilled st dat =
     (let initialResult = buildResponse dat (ctxErrors st)
      in if length (subsequentPayloads st) > 0
         then AsyncGenerator (yieldSubsequentPayloads st initialResult)
         else PlainResult initialResult)"

definition executeRejected :: "state \<Rightarrow> gqlError \<Rightarrow> executeResult" where
  "executeRejected st error =
     PlainResult (buildResponse Null (ctxErrors (pushError None error st)))"

definition execute :: "nat \<Rightarrow> deps \<Rightarrow> executionArgs \<Rightarrow> executeResult outcome option" where
  "execute n d args =
     (case assertValidExecutionArguments d (argSchema args) (argDocument args) (argVariableValues args) of
        Some e \<Rightarrow> Some (Raise e)
      | None \<Rightarrow>
          (case buildExecutionContext d args (documentDefinitions args) of
             Inl errs \<Rightarrow> Some (Return (PlainResult (emptyResult\<lparr>resErrors := Some errs\<rparr>)))
           | Inr ctx \<Rightarrow>
               (case executeOperation n d ctx (ctxOperation ctx) (argRootValue args) initialState of
                  None \<Rightarrow> None
                | Some (Raise error, st) \<Rightarrow> Some (Return (executeRejected st error))
                | Some (Return result, st) \<Rightarrow>
                    if isPromise result then Some (Return (PromiseResult result st))
                    else Some (Return (executeFulfilled st result)))))"

definition executeSync :: "nat \<Rightarrow> deps \<Rightarrow> executionArgs \<Rightarrow> executionResult outcome option" where
  "executeSync n d args =
     (case execute n d args of
        None \<Rightarrow> None
      | Some (Raise e) \<Rightarrow> Some (Raise e)
      | Some (Return (PlainResult result)) \<Rightarrow> Some (Return result)
      | Some (Return (PromiseResult p st)) \<Rightarrow>
          Some (Raise (newError ''GraphQL execution failed to complete synchronously.''))
      | Some (Return (AsyncGenerator y)) \<Rightarrow>
          Some (Raise (newError ''GraphQL execution failed to complete synchronously.'')))"

subsection \<open>Vocabulary of the properties\<close>

text \<open>The operation definitions of a document, in order.\<close>

fun operationDefinitions :: "definitionNode list \<Rightarrow> operationDefinitionNode list" where
  "operationDefinitions [] = []"
| "operationDefinitions (OperationDefinition od # ds) = od # operationDefinitions ds"
| "operationDefinitions (FragmentDefinition fd # ds) = operationDefinitions ds"
| "operationDefinitions (OtherDefinition # ds) = operationDefinitions ds"

text \<open>Whether a record carries the iterator with the given identity and can ask it to
  return.\<close>

definition carriesIterator :: "state \<Rightarrow> nat \<Rightarrow> nat \<Rightarrow> bool" where
  "carriesIterator st i rid =
     (case returnIterator (records st rid) of Some (j, r) \<Rightarrow> j = i | None \<Rightarrow> False)"

text \<open>Whether asking a record's iterator to return ends in a rejection.\<close>

definition returnRejects :: "state \<Rightarrow> nat \<Rightarrow> bool" where
  "returnRejects st rid =
     (case returnIterator (records st rid) of Some (j, Some e) \<Rightarrow> True | _ \<Rightarrow> False)"

text \<open>The record that \<^verbatim>\<open>executeStreamField\<close> leaves in the store for the item at \<open>index\<close>
  of the list at path \<open>p\<close>, sequenced after the record \<open>after\<close>.\<close>

definition streamRecord ::
  "string option \<Rightarrow> path \<Rightarrow> nat \<Rightarrow> val \<Rightarrow> nat option \<Rightarrow> asyncPayloadRecord" where
  "streamRecord l p index item after =
     \<lparr>prErrors = [], prLabel = l, prPath = Some (addPath (Some p) (Index index) None),
      prDataPromise = Some \<lparr>dpSource = StreamedItem item, dpAfter = after\<rparr>,
      prIterator = None, prIsCompletedIterator = False\<rparr>"

subsection \<open>Scenarios\<close>

text \<open>Concrete schemas and documents for the end-to-end scenarios of the specification.
  The collaborators are instantiated for documents whose selection sets hold only fields
  with distinct response names and no variables: each selected field is a group of its
  own, and arguments are those written in the node.\<close>

fun fieldsOnly :: "selection list \<Rightarrow> groupedFieldSet" where
  "fieldsOnly [] = []"
| "fieldsOnly (SelField node # sels) =
     ((case fnAlias node of Some a \<Rightarrow> a | None \<Rightarrow> fnName node), [node]) # fieldsOnly sels"
| "fieldsOnly (s # sels) = fieldsOnly sels"

definition typeNameMeta :: "string \<Rightarrow> gtype \<Rightarrow> fieldDef" where
  "typeNameMeta n t =
     \<lparr>fdName = n, fdType = t,
      fdResolve = Some (\<lambda>source args c info. Return (Str (infoParentType info)))\<rparr>"

text \<open>Modelled from the spec: \<^verbatim>\<open>getDirectiveValues\<close> of execution/values (not under src/)
  applied to \<^verbatim>\<open>@stream(initialCount, label?, if?)\<close>, whose arguments are declared
  \<^verbatim>\<open>if: Boolean! = true\<close>, \<^verbatim>\<open>label: String\<close> and \<^verbatim>\<open>initialCount: Int = 0\<close>, for argument
  literals without variables. An argument that is not written takes its default value; the
  literal null is a value of a nullable argument; any other literal must be of the
  argument's type (for \<^verbatim>\<open>Int\<close>, an integer of 32 bits), and the coercion raises when it is
  not. The text of that error stands for the one of execution/values.\<close>

definition invalidArgumentError :: "string \<Rightarrow> gqlError" where
  "invalidArgumentError argName = newError (''Argument '' @ argName @ '' has invalid value.'')"

fun isBooleanLiteral :: "val \<Rightarrow> bool" where
  "isBooleanLiteral (Bool b) = True"
| "isBooleanLiteral v = False"

fun isStringLiteral :: "val \<Rightarrow> bool" where
  "isStringLiteral (Str l) = True"
| "isStringLiteral v = False"

fun isIntLiteral :: "val \<Rightarrow> bool" where
  "isIntLiteral (Num c) = (of_int \<lfloor>c\<rfloor> = c \<and> - 2147483648 \<le> c \<and> c \<le> 2147483647)"
| "isIntLiteral v = False"

definition coerceStreamArguments :: "(string \<times> val) list \<Rightarrow> (string \<times> val) list outcome" where
  "coerceStreamArguments written =
     (let cond = (case map_of written ''if'' of None \<Rightarrow> Bool True | Some v \<Rightarrow> v);
          label = map_of written ''label'';
          count = (case map_of written ''initialCount'' of None \<Rightarrow> Num 0 | Some v \<Rightarrow> v)
      in if \<not> isBooleanLiteral cond then Raise (invalidArgumentError ''if'')
         else if label \<noteq> None \<and> label \<noteq> Some Null \<and> \<not> isStringLiteral (the label)
           then Raise (invalidArgumentError ''label'')
         else if count \<noteq> Null \<and> \<not> isIntLiteral count
           then Raise (invalidArgumentError ''initialCount'')
         else Return ([(''if'', cond)] @ (case label of None \<Rightarrow> [] | Some l \<Rightarrow> [(''label'', l)])
                        @ [(''initialCount'', count)]))"

definition streamDirectiveValues :: "fieldNode \<Rightarrow> (string \<times> val) list option outcome" where
  "streamDirectiveValues node =
     (case map_of (fnDirectives node) ''stream'' of
        None \<Rightarrow> Return None
      | Some written \<Rightarrow>
          (case coerceStreamArguments written of
             Raise e \<Rightarrow> Raise e
           | Return coerced \<Rightarrow> Return (Some coerced)))"

definition scenarioDeps :: deps where
  "scenarioDeps =
     \<lparr>assertValidSchema = (\<lambda>s. None),
      getVariableValues = (\<lambda>s defs raw. Coerced []),
      collectFields = (\<lambda>s fr vs t sels. \<lparr>cfFields = fieldsOnly sels, cfPatches = []\<rparr>),
      collectSubfields = (\<lambda>s fr vs t nodes.
         \<lparr>cfFields = fieldsOnly (concat (map fnSelectionSet nodes)), cfPatches = []\<rparr>),
      getArgumentValues = (\<lambda>fd node vs. Return (fnArguments node)),
      getStreamDirectiveValues = (\<lambda>node vs. streamDirectiveValues node),
      inspect = (\<lambda>v. ''[value]''),
      SchemaMetaFieldDef = typeNameMeta ''__schema'' (GraphQLNonNull (ObjectType ''__Schema'')),
      TypeMetaFieldDef = typeNameMeta ''__type'' (ObjectType ''__Type''),
      TypeNameMetaFieldDef = typeNameMeta ''__typename'' (GraphQLNonNull (LeafType ''String''))\<rparr>"

text \<open>A field whose resolver returns a fixed value.\<close>

definition constField :: "string \<Rightarrow> gtype \<Rightarrow> val \<Rightarrow> string \<times> fieldDef" where
  "constField n t v =
     (n, \<lparr>fdName = n, fdType = t, fdResolve = Some (\<lambda>source args c info. Return v)\<rparr>)"

text \<open>The schema \<^verbatim>\<open>type Q { ... }\<close> with the given fields, \<^verbatim>\<open>Q\<close> the query type, and leaf
  types whose \<^verbatim>\<open>serialize\<close> returns its argument.\<close>

definition scenarioSchema :: "(string \<times> fieldDef) list \<Rightarrow> schema" where
  "scenarioSchema fs =
     \<lparr>getQueryType = Some ''Q'', getMutationType = None, getSubscriptionType = None,
      getType = (\<lambda>n. if n = ''Q'' then Some ObjectKind else Some LeafKind),
      getObjectType = (\<lambda>n. \<lparr>getFields = (if n = ''Q'' then fs else []), isTypeOf = None\<rparr>),
      getAbstractType = (\<lambda>n. \<lparr>resolveType = None\<rparr>),
      getLeafType = (\<lambda>n. \<lparr>serialize = (\<lambda>v. Return v)\<rparr>),
      isSubType = (\<lambda>a b. False),
      getPossibleTypes = (\<lambda>a. [])\<rparr>"

text \<open>The selection of a field without alias, arguments and sub-selections, and the
  document that holds one anonymous query.\<close>

definition plainField :: "string \<Rightarrow> (string \<times> (string \<times> val) list) list \<Rightarrow> selection" where
  "plainField n dirs = SelField (FieldNode n None [] dirs [])"

definition queryOperation :: "string option \<Rightarrow> selection list \<Rightarrow> definitionNode" where
  "queryOperation n sels =
     OperationDefinition \<lparr>opOperation = QUERY, opName = n, opVariableDefinitions = [],
                          opSelectionSet = sels\<rparr>"

definition scenarioArgs :: "schema \<Rightarrow> definitionNode list \<Rightarrow> string option \<Rightarrow> executionArgs" where
  "scenarioArgs s doc operationName =
     \<lparr>argSchema = s, argDocument = Some doc, argRootValue = Null, argContextValue = Null,
      argVariableValues = Undefined, argOperationName = operationName, argFieldResolver = None,
      argTypeResolver = None, argSubscribeFieldResolver = None\<rparr>"

text \<open>The execution context that \<^verbatim>\<open>buildExecutionContext\<close> makes for a scenario's schema
  and an anonymous query.\<close>

definition scenarioContext :: "schema \<Rightarrow> exeContext" where
  "scenarioContext s =
     \<lparr>ctxSchema = s, ctxFragments = [], ctxRootValue = Null, ctxContextValue = Null,
      ctxOperation = \<lparr>opOperation = QUERY, opName = None, opVariableDefinitions = [],
                      opSelectionSet = []\<rparr>,
      ctxVariableValues = [], ctxFieldResolver = defaultFieldResolver,
      ctxTypeResolver = defaultTypeResolver s, ctxSubscribeFieldResolver = defaultFieldResolver\<rparr>"

text \<open>A list field that resolves to an asynchronous iterable and is streamed from index 0:
  \<^verbatim>\<open>type Q { list: [Int] }\<close>, query \<^verbatim>\<open>{ list @stream(initialCount: 0) }\<close>. The iterator has the
  identity 7 and a \<^verbatim>\<open>return\<close> method that fulfils.\<close>

definition sourceIterator :: asyncIterator where
  "sourceIterator = \<lparr>iterId = 7, iterReturn = ReturnFulfils\<rparr>"

definition asyncListSchema :: schema where
  "asyncListSchema =
     scenarioSchema [constField ''list'' (GraphQLList (LeafType ''Int'')) (AsyncIterable sourceIterator)]"

definition asyncListNode :: fieldNode where
  "asyncListNode = FieldNode ''list'' None [] [(''stream'', [(''initialCount'', Num 0)])] []"

definition asyncListArgs :: executionArgs where
  "asyncListArgs = scenarioArgs asyncListSchema [queryOperation None [SelField asyncListNode]] None"

definition asyncListPath :: path where
  "asyncListPath = Path None (Key ''list'') (Some ''Q'')"

text \<open>The callback of the stream over that iterator, for the record \<open>rid\<close> made for
  \<open>index\<close>, with the arguments that \<^verbatim>\<open>completeAsyncIteratorValue\<close> gave to
  \<^verbatim>\<open>executeStreamIterator\<close>.\<close>

definition asyncListDelivered :: "nat \<Rightarrow> nat \<Rightarrow> val \<Rightarrow> bool \<Rightarrow> state \<Rightarrow> state" where
  "asyncListDelivered index rid dat finished st =
     (case streamItemDelivered
             (completeValue (Suc 0) scenarioDeps (scenarioContext asyncListSchema)) scenarioDeps
             (scenarioContext asyncListSchema) [asyncListNode]
             \<lparr>infoFieldName = ''list'', infoParentType = ''Q'',
              infoReturnType = GraphQLList (LeafType ''Int''), infoPath = asyncListPath\<rparr>
             (LeafType ''Int'') (Some asyncListPath) None None sourceIterator index rid dat finished st of
        Some (settled, st') \<Rightarrow> st'
      | None \<Rightarrow> st)"

text \<open>The state when \<open>execute\<close> has returned its promise and the iterator has then
  delivered the item 10; and the state when it has also reported that it is done.\<close>

definition asyncListOneItem :: state where
  "asyncListOneItem =
     (case execute (Suc (Suc 0)) scenarioDeps asyncListArgs of
        Some (Return (PromiseResult pr st)) \<Rightarrow> asyncListDelivered 0 0 (Num 10) False st
      | _ \<Rightarrow> initialState)"

definition asyncListFinished :: state where
  "asyncListFinished = asyncListDelivered 1 1 Undefined True asyncListOneItem"

text \<open>The yielder that the first callback of \<open>execute\<close> makes when the promise of the
  data is fulfilled, in a given state, with the data \<^verbatim>\<open>{ list: [] }\<close>.\<close>

definition asyncListYielder :: "state \<Rightarrow> yielder" where
  "asyncListYielder st =
     (case executeFulfilled st (Obj [(''list'', Arr [])]) of
        AsyncGenerator y \<Rightarrow> y
      | _ \<Rightarrow> yieldSubsequentPayloads st emptyResult)"

text \<open>A list field that resolves to a synchronous list: \<^verbatim>\<open>type Q { list: [T] }\<close> with the
  item type and the items given, and the nodes \<^verbatim>\<open>list @stream(initialCount: c)\<close>,
  \<^verbatim>\<open>list @stream(initialCount: -1, if: false)\<close> and \<^verbatim>\<open>list\<close>.\<close>

definition listNode :: "val \<Rightarrow> fieldNode" where
  "listNode c = FieldNode ''list'' None [] [(''stream'', [(''initialCount'', c)])] []"

definition disabledListNode :: fieldNode where
  "disabledListNode =
     FieldNode ''list'' None [] [(''stream'', [(''initialCount'', Num (- 1)), (''if'', Bool False)])] []"

definition unstreamedListNode :: fieldNode where
  "unstreamedListNode = FieldNode ''list'' None [] [] []"

definition listSchema :: "gtype \<Rightarrow> val list \<Rightarrow> schema" where
  "listSchema itemType items = scenarioSchema [constField ''list'' (GraphQLList itemType) (Arr items)]"

definition listInfo :: "gtype \<Rightarrow> resolveInfo" where
  "listInfo itemType =
     \<lparr>infoFieldName = ''list'', infoParentType = ''Q'', infoReturnType = GraphQLList itemType,
      infoPath = asyncListPath\<rparr>"

text \<open>Two streamed lists, \<^verbatim>\<open>type Q { list: [Int], other: [Int] }\<close> with query
  \<^verbatim>\<open>{ list @stream(initialCount: 0) other @stream(initialCount: 0) }\<close>, where \<^verbatim>\<open>list\<close>
  resolves to the asynchronous iterable and \<^verbatim>\<open>other\<close> to the list of 5: the state when
  \<open>execute\<close> has returned its promise and the iterator has then reported that it is
  done, and the yielder that the first callback of \<open>execute\<close> makes with the data
  \<^verbatim>\<open>{ list: [], other: [] }\<close>.\<close>

definition otherListNode :: fieldNode where
  "otherListNode = FieldNode ''other'' None [] [(''stream'', [(''initialCount'', Num 0)])] []"

definition twoListsSchema :: schema where
  "twoListsSchema =
     scenarioSchema [constField ''list'' (GraphQLList (LeafType ''Int'')) (AsyncIterable sourceIterator),
                     constField ''other'' (GraphQLList (LeafType ''Int'')) (Arr [Num 5])]"

definition twoListsArgs :: executionArgs where
  "twoListsArgs =
     scenarioArgs twoListsSchema [queryOperation None [SelField asyncListNode, SelField otherListNode]] None"

definition twoListsFinished :: state where
  "twoListsFinished =
     (case execute (Suc (Suc 0)) scenarioDeps twoListsArgs of
        Some (Return (PromiseResult pr st)) \<Rightarrow>
          (case streamItemDelivered
                  (completeValue (Suc 0) scenarioDeps (scenarioContext twoListsSchema)) scenarioDeps
                  (scenarioContext twoListsSchema) [asyncListNode]
                  \<lparr>infoFieldName = ''list'', infoParentType = ''Q'',
                   infoReturnType = GraphQLList (LeafType ''Int''), infoPath = asyncListPath\<rparr>
                  (LeafType ''Int'') (Some asyncListPath) None None sourceIterator 0 0 Undefined True st of
             Some (settled, st') \<Rightarrow> st'
           | None \<Rightarrow> st)
      | _ \<Rightarrow> initialState)"

definition twoListsYielder :: yielder where
  "twoListsYielder =
     (case executeFulfilled twoListsFinished (Obj [(''list'', Arr []), (''other'', Arr [])]) of
        AsyncGenerator y \<Rightarrow> y
      | _ \<Rightarrow> yieldSubsequentPayloads twoListsFinished emptyResult)"

text \<open>Scenario S7, \<^verbatim>\<open>{ list @stream(initialCount: 2) }\<close> on the list 10, 20, 30, 40: the
  yielder that \<open>execute\<close> returns.\<close>

definition streamedListYielder :: yielder where
  "streamedListYielder =
     (case execute (Suc (Suc 0)) scenarioDeps
             (scenarioArgs (listSchema (LeafType ''Int'') [Num 10, Num 20, Num 30, Num 40])
                [queryOperation None [SelField (listNode (Num 2))]] None) of
        Some (Return (AsyncGenerator y)) \<Rightarrow> y
      | _ \<Rightarrow> yieldSubsequentPayloads initialState emptyResult)"

section \<open>Properties\<close>

subsection \<open>Unfolding the scenarios\<close>

lemmas scenario_defs =
  scenarioArgs_def scenarioSchema_def scenarioDeps_def constField_def queryOperation_def
  plainField_def typeNameMeta_def scenarioContext_def streamDirectiveValues_def
  coerceStreamArguments_def invalidArgumentError_def

lemmas asyncList_defs =
  sourceIterator_def asyncListSchema_def asyncListNode_def asyncListArgs_def asyncListPath_def
  asyncListDelivered_def asyncListOneItem_def asyncListFinished_def asyncListYielder_def
  streamItemDelivered_def setIsCompletedIterator_def

lemmas list_defs =
  listNode_def disabledListNode_def unstreamedListNode_def listSchema_def listInfo_def
  asyncListPath_def streamRecord_def

lemmas execute_defs =
  execute_def assertValidExecutionArguments_def buildExecutionContext_def documentDefinitions_def
  executeOperation_def executeFields_def executeField_def getFieldDef_def buildResolveInfo_def
  handleFieldError_def locatedError_def addPath_def executeFulfilled_def executeRejected_def
  buildResponse_def pushError_def initialState_def emptyResult_def newError_def
  nonNullViolation_def completeLeafValue_def

lemmas complete_defs =
  completeObjectValue_def collectAndExecuteSubfields_def completeListValue_def
  completeAsyncIteratorValue_def getStreamValues_def streamsFrom_def labelOf_def
  executeStreamField_def executeStreamIterator_def allocRecord_def addDataPromise_def
  pushPayload_def newAsyncPayloadRecord_def completeAbstractValue_def
  executeDeferredFragment_def yieldSubsequentPayloads_def invariantError_def

subsection \<open>Fields that the parent type does not define\<close>

lemma getFieldDef_unknown:
  assumes "fnName node \<noteq> fdName (SchemaMetaFieldDef d)"
      and "fnName node \<noteq> fdName (TypeMetaFieldDef d)"
      and "fnName node \<noteq> fdName (TypeNameMetaFieldDef d)"
      and "map_of (getFields (getObjectType s parentType)) (fnName node) = None"
  shows "getFieldDef d s parentType node = None"
  using assms by (simp add: getFieldDef_def Let_def)

lemma executeField_unknown:
  assumes "getFieldDef d (ctxSchema ctx) parentType node = None"
  shows "executeField cv d ctx parentType source (node # others) p apr st = Some (Return Undefined, st)"
  using assms by (simp add: executeField_def)

lemma executeFieldsLoop_skip:
  assumes "getFieldDef d (ctxSchema ctx) parentType node = None"
  shows "executeFieldsLoop cv d ctx parentType source p (before @ (rn, node # others) # after) apr st
       = executeFieldsLoop cv d ctx parentType source p (before @ after) apr st"
proof (induction before arbitrary: st)
  case Nil
  show ?case
    using assms
    by (simp add: executeField_unknown split: option.splits prod.splits outcome.splits)
next
  case (Cons entry before)
  obtain k ns where entry: "entry = (k, ns)" by (cases entry)
  show ?case
    unfolding entry
    by (simp add: Cons.IH split: option.splits prod.splits outcome.splits)
qed

lemma executeFieldsSeriallyLoop_skip:
  assumes "getFieldDef d (ctxSchema ctx) parentType node = None"
  shows "executeFieldsSeriallyLoop cv d ctx parentType source p (before @ (rn, node # others) # after)
           results st
       = executeFieldsSeriallyLoop cv d ctx parentType source p (before @ after) results st"
proof (induction before arbitrary: st results)
  case Nil
  show ?case
    using assms by (simp add: executeField_unknown)
next
  case (Cons entry before)
  obtain k ns where entry: "entry = (k, ns)" by (cases entry)
  show ?case
    unfolding entry
    by (simp add: Cons.IH split: option.splits prod.splits outcome.splits)
qed

text \<open>
  Claim C10. A grouped field whose name is none of the three meta field names and is not
  a field of the parent type has no field definition; \<open>executeField\<close> returns undefined
  for it and leaves the state as it was (no error is logged); and the parallel and the
  serial executor give the same result and the same state as for the field set without
  that entry, wherever the entry stands: no key is made for its response name and the
  other fields are executed as if it had not been selected.
\<close>

theorem unknown_field_is_omitted:
  assumes "fnName node \<noteq> fdName (SchemaMetaFieldDef d)"
      and "fnName node \<noteq> fdName (TypeMetaFieldDef d)"
      and "fnName node \<noteq> fdName (TypeNameMetaFieldDef d)"
      and "map_of (getFields (getObjectType (ctxSchema ctx) parentType)) (fnName node) = None"
  shows "getFieldDef d (ctxSchema ctx) parentType node = None
       \<and> executeField cv d ctx parentType source (node # others) p apr st = Some (Return Undefined, st)
       \<and> executeFields cv d ctx parentType source q (before @ (rn, node # others) # after) apr st
           = executeFields cv d ctx parentType source q (before @ after) apr st
       \<and> executeFieldsSerially cv d ctx parentType source q (before @ (rn, node # others) # after) st
           = executeFieldsSerially cv d ctx parentType source q (before @ after) st"
proof -
  have none: "getFieldDef d (ctxSchema ctx) parentType node = None"
    using assms by (rule getFieldDef_unknown)
  show ?thesis
    by (simp add: none executeField_unknown executeFields_def executeFieldsSerially_def
        executeFieldsLoop_skip executeFieldsSeriallyLoop_skip)
qed

text \<open>The query \<^verbatim>\<open>{ y x }\<close> on \<^verbatim>\<open>type Q { x: Int }\<close> with \<^verbatim>\<open>x\<close> resolving to 5: the
  result map is \<^verbatim>\<open>{ x: 5 }\<close>.\<close>

theorem unknown_field_is_omitted_witness:
  "map_of (getFields (getObjectType
       (ctxSchema (scenarioContext (scenarioSchema [constField ''x'' (LeafType ''Int'') (Num 5)]))) ''Q'')) ''y''
     = None
   \<and> executeFields
       (completeValue (Suc 0) scenarioDeps
          (scenarioContext (scenarioSchema [constField ''x'' (LeafType ''Int'') (Num 5)])))
       scenarioDeps (scenarioContext (scenarioSchema [constField ''x'' (LeafType ''Int'') (Num 5)]))
       ''Q'' Null None
       [(''y'', [FieldNode ''y'' None [] [] []]), (''x'', [FieldNode ''x'' None [] [] []])] None
       initialState
     = Some (Return (Obj [(''x'', Num 5)]), initialState)"
  using unknown_field_is_omitted
    [where node = "FieldNode ''y'' None [] [] []" and d = scenarioDeps
       and ctx = "scenarioContext (scenarioSchema [constField ''x'' (LeafType ''Int'') (Num 5)])"
       and parentType = "''Q''"
       and cv = "completeValue (Suc 0) scenarioDeps
                   (scenarioContext (scenarioSchema [constField ''x'' (LeafType ''Int'') (Num 5)]))"
       and source = Null and others = "[]" and p = "Path None (Key ''y'') (Some ''Q'')"
       and apr = None and st = initialState and q = None and before = "[]" and rn = "''y''"
       and after = "[(''x'', [FieldNode ''x'' None [] [] []])]"]
  by (simp add: scenario_defs execute_defs)

subsection \<open>Non-null fields\<close>

lemma completeValue_NonNull:
  "completeValue (Suc n) d ctx (GraphQLNonNull t) fieldNodes info p v apr st =
     (case asError v of
        Some e \<Rightarrow> Some (Raise e, st)
      | None \<Rightarrow>
          (case completeValue n d ctx t fieldNodes info p v apr st of
             None \<Rightarrow> None
           | Some (Raise e, st1) \<Rightarrow> Some (Raise e, st1)
           | Some (Return completed, st1) \<Rightarrow>
               if completed = Null then Some (Raise (nonNullViolation info), st1)
               else Some (Return completed, st1)))"
  by (cases "asError v") simp_all

lemma completeValue_Return_not_error:
  "completeValue n d ctx t fieldNodes info p v apr st = Some (Return w, st1) \<Longrightarrow> asError v = None"
  by (cases n; cases "asError v") auto

lemma completeValue_NonNull_never_null:
  "completeValue m d ctx (GraphQLNonNull t) fieldNodes info p v apr st \<noteq> Some (Return Null, st2)"
proof (cases m)
  case 0
  then show ?thesis by simp
next
  case (Suc n)
  show ?thesis
    unfolding Suc completeValue_NonNull
    by (simp split: option.splits prod.splits outcome.splits)
qed


lemma scenario_S3:
  "execute (Suc (Suc k)) scenarioDeps
     (scenarioArgs (scenarioSchema [constField ''x'' (GraphQLNonNull (LeafType ''Int'')) Null])
        [queryOperation None [plainField ''x'' []]] None)
   = Some (Return (PlainResult
       \<lparr>resErrors = Some [\<lparr>message = ''Cannot return null for non-nullable field Q.x.'',
                            errPath = Some [Key ''x'']\<rparr>],
        resData = Some Null, resPath = None, resLabel = None, resHasNext = None\<rparr>))"
  by (simp add: scenario_defs execute_defs)

text \<open>
  Claim C1. When the completion of a value under the inner type \<open>t\<close> yields null,
  \<open>completeValue\<close> under the non-null type \<open>t!\<close> raises the error with the
  message \<^verbatim>\<open>Cannot return null for non-nullable field <ParentType>.<fieldName>.\<close>, in the
  state the inner completion left; under a non-null type it never returns null, whatever
  the depth bound. So a field whose declared type is \<open>t!\<close> and whose resolved value completes to
  null under \<open>t\<close> makes \<open>executeField\<close> raise that error, located at the field's path. In
  scenario S3 (\<^verbatim>\<open>type Q { x: Int! }\<close>, the resolver returns null, query
  \<^verbatim>\<open>{ x }\<close>), \<open>execute\<close> returns, for every depth bound of at least 2, the response whose
  data is null and whose errors hold exactly that error, at path \<^verbatim>\<open>["x"]\<close>.
\<close>

theorem non_null_violation:
  "(completeValue n d ctx t fieldNodes info p v apr st = Some (Return Null, st') \<longrightarrow>
      completeValue (Suc n) d ctx (GraphQLNonNull t) fieldNodes info p v apr st
        = Some (Raise (nonNullViolation info), st'))
   \<and> completeValue m d ctx (GraphQLNonNull t) fieldNodes info p v apr st \<noteq> Some (Return Null, st'')
   \<and> message (nonNullViolation info)
        = ''Cannot return null for non-nullable field '' @ infoParentType info @ ''.''
            @ infoFieldName info @ ''.''
   \<and> (getFieldDef d (ctxSchema ctx) parentType node = Some fd \<and> fdType fd = GraphQLNonNull t
        \<and> getArgumentValues d fd node (ctxVariableValues ctx) = Return args
        \<and> (case fdResolve fd of Some f \<Rightarrow> f | None \<Rightarrow> ctxFieldResolver ctx) source args
             (ctxContextValue ctx) (buildResolveInfo ctx fd (node # others) parentType p) = Return result
        \<and> \<not> isPromise result
        \<and> completeValue n d ctx t (node # others) (buildResolveInfo ctx fd (node # others) parentType p)
             p result apr st = Some (Return Null, st') \<longrightarrow>
        executeField (completeValue (Suc n) d ctx) d ctx parentType source (node # others) p apr st
          = Some (Raise \<lparr>message = ''Cannot return null for non-nullable field '' @ parentType @ ''.''
                                   @ fdName fd @ ''.'',
                         errPath = Some (pathToArray p)\<rparr>, st'))
   \<and> execute (Suc (Suc k)) scenarioDeps
        (scenarioArgs (scenarioSchema [constField ''x'' (GraphQLNonNull (LeafType ''Int'')) Null])
           [queryOperation None [plainField ''x'' []]] None)
      = Some (Return (PlainResult
          \<lparr>resErrors = Some [\<lparr>message = ''Cannot return null for non-nullable field Q.x.'',
                               errPath = Some [Key ''x'']\<rparr>],
           resData = Some Null, resPath = None, resLabel = None, resHasNext = None\<rparr>))"
proof (intro conjI impI)
  assume inner: "completeValue n d ctx t fieldNodes info p v apr st = Some (Return Null, st')"
  then have "asError v = None" by (rule completeValue_Return_not_error)
  with inner show "completeValue (Suc n) d ctx (GraphQLNonNull t) fieldNodes info p v apr st
        = Some (Raise (nonNullViolation info), st')"
    by (simp add: completeValue_NonNull)
next
  show "completeValue m d ctx (GraphQLNonNull t) fieldNodes info p v apr st \<noteq> Some (Return Null, st'')"
    by (rule completeValue_NonNull_never_null)
next
  show "message (nonNullViolation info)
        = ''Cannot return null for non-nullable field '' @ infoParentType info @ ''.''
            @ infoFieldName info @ ''.''"
    by (simp add: nonNullViolation_def newError_def)
next
  let ?info = "buildResolveInfo ctx fd (node # others) parentType p"
  assume h: "getFieldDef d (ctxSchema ctx) parentType node = Some fd \<and> fdType fd = GraphQLNonNull t
        \<and> getArgumentValues d fd node (ctxVariableValues ctx) = Return args
        \<and> (case fdResolve fd of Some f \<Rightarrow> f | None \<Rightarrow> ctxFieldResolver ctx) source args
             (ctxContextValue ctx) ?info = Return result
        \<and> \<not> isPromise result
        \<and> completeValue n d ctx t (node # others) ?info p result apr st = Some (Return Null, st')"
  then have "asError result = None" using completeValue_Return_not_error by blast
  with h have raised: "completeValue (Suc n) d ctx (GraphQLNonNull t) (node # others) ?info p result apr st
                 = Some (Raise (nonNullViolation ?info), st')"
    by (simp add: completeValue_NonNull)
  have located: "locatedError (nonNullViolation ?info) (pathToArray p)
                   = \<lparr>message = ''Cannot return null for non-nullable field '' @ parentType @ ''.''
                                   @ fdName fd @ ''.'',
                      errPath = Some (pathToArray p)\<rparr>"
    by (simp add: locatedError_def nonNullViolation_def newError_def buildResolveInfo_def)
  from h raised show "executeField (completeValue (Suc n) d ctx) d ctx parentType source (node # others) p apr st
          = Some (Raise \<lparr>message = ''Cannot return null for non-nullable field '' @ parentType @ ''.''
                                   @ fdName fd @ ''.'',
                         errPath = Some (pathToArray p)\<rparr>, st')"
    by (simp add: executeField_def Let_def handleFieldError_def located)
next
  show "execute (Suc (Suc k)) scenarioDeps
        (scenarioArgs (scenarioSchema [constField ''x'' (GraphQLNonNull (LeafType ''Int'')) Null])
           [queryOperation None [plainField ''x'' []]] None)
      = Some (Return (PlainResult
          \<lparr>resErrors = Some [\<lparr>message = ''Cannot return null for non-nullable field Q.x.'',
                               errPath = Some [Key ''x'']\<rparr>],
           resData = Some Null, resPath = None, resLabel = None, resHasNext = None\<rparr>))"
    by (rule scenario_S3)
qed

text \<open>The completion of null under \<^verbatim>\<open>Int\<close> yields null, and under \<^verbatim>\<open>Int!\<close> raises; the field
  \<^verbatim>\<open>x: Int!\<close> whose resolver returns null raises the error located at \<^verbatim>\<open>x\<close>.\<close>

theorem non_null_violation_witness:
  "completeValue (Suc 0) scenarioDeps
      (scenarioContext (scenarioSchema [constField ''x'' (GraphQLNonNull (LeafType ''Int'')) Null]))
      (LeafType ''Int'') [FieldNode ''x'' None [] [] []]
      \<lparr>infoFieldName = ''x'', infoParentType = ''Q'', infoReturnType = GraphQLNonNull (LeafType ''Int''),
       infoPath = Path None (Key ''x'') (Some ''Q'')\<rparr>
      (Path None (Key ''x'') (Some ''Q'')) Null None initialState
     = Some (Return Null, initialState)
   \<and> completeValue (Suc (Suc 0)) scenarioDeps
      (scenarioContext (scenarioSchema [constField ''x'' (GraphQLNonNull (LeafType ''Int'')) Null]))
      (GraphQLNonNull (LeafType ''Int'')) [FieldNode ''x'' None [] [] []]
      \<lparr>infoFieldName = ''x'', infoParentType = ''Q'', infoReturnType = GraphQLNonNull (LeafType ''Int''),
       infoPath = Path None (Key ''x'') (Some ''Q'')\<rparr>
      (Path None (Key ''x'') (Some ''Q'')) Null None initialState
     = Some (Raise \<lparr>message = ''Cannot return null for non-nullable field Q.x.'', errPath = None\<rparr>,
             initialState)
   \<and> executeField (completeValue (Suc (Suc 0)) scenarioDeps
         (scenarioContext (scenarioSchema [constField ''x'' (GraphQLNonNull (LeafType ''Int'')) Null])))
       scenarioDeps
       (scenarioContext (scenarioSchema [constField ''x'' (GraphQLNonNull (LeafType ''Int'')) Null]))
       ''Q'' Null [FieldNode ''x'' None [] [] []] (Path None (Key ''x'') (Some ''Q'')) None initialState
     = Some (Raise \<lparr>message = ''Cannot return null for non-nullable field Q.x.'',
                    errPath = Some [Key ''x'']\<rparr>, initialState)"
  using non_null_violation
    [where n = "Suc 0" and d = scenarioDeps
       and ctx = "scenarioContext (scenarioSchema [constField ''x'' (GraphQLNonNull (LeafType ''Int'')) Null])"
       and t = "LeafType ''Int''" and fieldNodes = "[FieldNode ''x'' None [] [] []]"
       and info = "\<lparr>infoFieldName = ''x'', infoParentType = ''Q'',
                     infoReturnType = GraphQLNonNull (LeafType ''Int''),
                     infoPath = Path None (Key ''x'') (Some ''Q'')\<rparr>"
       and p = "Path None (Key ''x'') (Some ''Q'')" and v = Null and apr = None
       and st = initialState and st' = initialState
       and parentType = "''Q''" and node = "FieldNode ''x'' None [] [] []" and others = "[]"
       and fd = "snd (constField ''x'' (GraphQLNonNull (LeafType ''Int'')) Null)"
       and args = "[]" and source = Null and result = Null]
  by (simp add: scenario_defs execute_defs getFieldDef_def buildResolveInfo_def pathToArray.simps)

subsection \<open>Handling a located field error\<close>













subsection \<open>The keys of a response\<close>

lemma selectOperation_Inl:
  "selectOperation operationName ds operation fragments = Inl errs \<Longrightarrow> errs \<noteq> []"
  by (induction operationName ds operation fragments rule: selectOperation.induct)
     (auto split: option.splits if_splits)

lemma buildExecutionContext_Inl:
  "buildExecutionContext d args ds = Inl errs \<Longrightarrow> errs \<noteq> []"
  by (auto simp: buildExecutionContext_def dest: selectOperation_Inl
      split: sum.splits option.splits prod.splits coercedVariableValues.splits)

text \<open>
  Claim C3. \<open>buildResponse\<close> gives the \<^verbatim>\<open>errors\<close> key exactly when the error list is not
  empty, with that list, and always gives the \<^verbatim>\<open>data\<close> key. For arguments that pass
  \<open>assertValidExecutionArguments\<close>, \<open>execute\<close> never raises, and it returns nothing only
  when the depth bound is too small for \<open>executeOperation\<close>. When
  \<open>buildExecutionContext\<close> fails, \<open>execute\<close> returns the response that holds the errors of
  the failure, a list that is never empty, and no \<^verbatim>\<open>data\<close> key. When \<open>executeOperation\<close>
  raises, it returns what \<open>buildResponse\<close> makes of null and the log extended by that
  error; when \<open>executeOperation\<close> returns a value that is not a promise, it returns what
  \<open>buildResponse\<close> makes of that value and the log, as the response when no payload is
  pending and as the initial result of the yielder otherwise; when the value is a promise,
  the two callbacks on it make the response in the same way. Conversely, a response that
  \<open>execute\<close> returns is one of these.
\<close>

theorem response_keys:
  "(resErrors (buildResponse dat errs) = None \<longleftrightarrow> errs = [])
   \<and> (errs \<noteq> [] \<longrightarrow> resErrors (buildResponse dat errs) = Some errs)
   \<and> resData (buildResponse dat errs) = Some dat
   \<and> (assertValidExecutionArguments d (argSchema args) (argDocument args) (argVariableValues args) = None \<longrightarrow>
        (buildExecutionContext d args (documentDefinitions args) = Inl errs \<longrightarrow>
           errs \<noteq> []
           \<and> execute n d args
               = Some (Return (PlainResult \<lparr>resErrors = Some errs, resData = None, resPath = None,
                                            resLabel = None, resHasNext = None\<rparr>)))
        \<and> (buildExecutionContext d args (documentDefinitions args) = Inr ctx \<longrightarrow>
             (executeOperation n d ctx (ctxOperation ctx) (argRootValue args) initialState
                = Some (Raise e, st) \<longrightarrow>
              execute n d args = Some (Return (PlainResult (buildResponse Null (ctxErrors st @ [e])))))
           \<and> (executeOperation n d ctx (ctxOperation ctx) (argRootValue args) initialState
                = Some (Return v, st) \<and> \<not> isPromise v \<and> subsequentPayloads st = [] \<longrightarrow>
              execute n d args = Some (Return (PlainResult (buildResponse v (ctxErrors st)))))
           \<and> (executeOperation n d ctx (ctxOperation ctx) (argRootValue args) initialState
                = Some (Return v, st) \<and> \<not> isPromise v \<and> subsequentPayloads st \<noteq> [] \<longrightarrow>
              execute n d args
                = Some (Return (AsyncGenerator
                     (yieldSubsequentPayloads st (buildResponse v (ctxErrors st))))))
           \<and> (executeOperation n d ctx (ctxOperation ctx) (argRootValue args) initialState
                = Some (Return v, st) \<and> isPromise v \<longrightarrow>
              execute n d args = Some (Return (PromiseResult v st)))
           \<and> (executeOperation n d ctx (ctxOperation ctx) (argRootValue args) initialState = None
                \<longleftrightarrow> execute n d args = None))
        \<and> execute n d args \<noteq> Some (Raise e)
        \<and> (execute n d args = None \<longrightarrow>
             (\<exists>c. buildExecutionContext d args (documentDefinitions args) = Inr c)))
   \<and> (execute n d args = Some (Return (PlainResult r)) \<longrightarrow>
         (\<exists>errs. buildExecutionContext d args (documentDefinitions args) = Inl errs \<and> errs \<noteq> []
                 \<and> resErrors r = Some errs \<and> resData r = None)
       \<or> (\<exists>ctx out st. buildExecutionContext d args (documentDefinitions args) = Inr ctx
                 \<and> executeOperation n d ctx (ctxOperation ctx) (argRootValue args) initialState
                      = Some (out, st)
                 \<and> r = (case out of Raise e \<Rightarrow> buildResponse Null (ctxErrors st @ [e])
                                   | Return v \<Rightarrow> buildResponse v (ctxErrors st))))
   \<and> (execute n d args = Some (Return (AsyncGenerator y)) \<longrightarrow>
         (\<exists>ctx v st. buildExecutionContext d args (documentDefinitions args) = Inr ctx
                 \<and> executeOperation n d ctx (ctxOperation ctx) (argRootValue args) initialState
                      = Some (Return v, st)
                 \<and> yInitialResult y = buildResponse v (ctxErrors st)))
   \<and> executeFulfilled sa dat
        = (if subsequentPayloads sa = [] then PlainResult (buildResponse dat (ctxErrors sa))
           else AsyncGenerator (yieldSubsequentPayloads sa (buildResponse dat (ctxErrors sa))))
   \<and> executeRejected sa e = PlainResult (buildResponse Null (ctxErrors sa @ [e]))"
proof -
  have plain: "execute n d args = Some (Return (PlainResult r)) \<longrightarrow>
         (\<exists>errs. buildExecutionContext d args (documentDefinitions args) = Inl errs \<and> errs \<noteq> []
                 \<and> resErrors r = Some errs \<and> resData r = None)
       \<or> (\<exists>ctx out st. buildExecutionContext d args (documentDefinitions args) = Inr ctx
                 \<and> executeOperation n d ctx (ctxOperation ctx) (argRootValue args) initialState
                      = Some (out, st)
                 \<and> r = (case out of Raise e \<Rightarrow> buildResponse Null (ctxErrors st @ [e])
                                   | Return v \<Rightarrow> buildResponse v (ctxErrors st)))"
  proof
    assume ex: "execute n d args = Some (Return (PlainResult r))"
    show "(\<exists>errs. buildExecutionContext d args (documentDefinitions args) = Inl errs \<and> errs \<noteq> []
                 \<and> resErrors r = Some errs \<and> resData r = None)
       \<or> (\<exists>ctx out st. buildExecutionContext d args (documentDefinitions args) = Inr ctx
                 \<and> executeOperation n d ctx (ctxOperation ctx) (argRootValue args) initialState
                      = Some (out, st)
                 \<and> r = (case out of Raise e \<Rightarrow> buildResponse Null (ctxErrors st @ [e])
                                   | Return v \<Rightarrow> buildResponse v (ctxErrors st)))"
    proof (cases "buildExecutionContext d args (documentDefinitions args)")
      case (Inl errs)
      then have "errs \<noteq> []" by (rule buildExecutionContext_Inl)
      with ex Inl show ?thesis
        by (auto simp: execute_def emptyResult_def split: option.splits)
    next
      case (Inr ctx)
      from ex Inr obtain out st where
        op: "executeOperation n d ctx (ctxOperation ctx) (argRootValue args) initialState = Some (out, st)"
        by (cases "executeOperation n d ctx (ctxOperation ctx) (argRootValue args) initialState")
           (auto simp: execute_def split: option.splits)
      have "r = (case out of Raise e \<Rightarrow> buildResponse Null (ctxErrors st @ [e])
                           | Return v \<Rightarrow> buildResponse v (ctxErrors st))"
        using ex Inr op
        by (cases out)
           (auto simp: execute_def executeFulfilled_def executeRejected_def
              pushError_def Let_def split: option.splits if_splits)
      with Inr op show ?thesis by blast
    qed
  qed
  have gen: "execute n d args = Some (Return (AsyncGenerator y)) \<longrightarrow>
         (\<exists>ctx v st. buildExecutionContext d args (documentDefinitions args) = Inr ctx
                 \<and> executeOperation n d ctx (ctxOperation ctx) (argRootValue args) initialState
                      = Some (Return v, st)
                 \<and> yInitialResult y = buildResponse v (ctxErrors st))"
    by (auto simp: execute_def executeFulfilled_def executeRejected_def
        yieldSubsequentPayloads_def Let_def
        split: option.splits outcome.splits if_splits sum.splits)
  have ful: "executeFulfilled sa dat
        = (if subsequentPayloads sa = [] then PlainResult (buildResponse dat (ctxErrors sa))
           else AsyncGenerator (yieldSubsequentPayloads sa (buildResponse dat (ctxErrors sa))))"
    by (simp add: executeFulfilled_def Let_def)
  have rej: "executeRejected sa e = PlainResult (buildResponse Null (ctxErrors sa @ [e]))"
    by (simp add: executeRejected_def pushError_def)
  have k1: "resErrors (buildResponse dat errs) = None \<longleftrightarrow> errs = []"
    and k2: "errs \<noteq> [] \<longrightarrow> resErrors (buildResponse dat errs) = Some errs"
    and k3: "resData (buildResponse dat errs) = Some dat"
    by (simp_all add: buildResponse_def emptyResult_def)
  have fwd: "assertValidExecutionArguments d (argSchema args) (argDocument args) (argVariableValues args) = None \<longrightarrow>
        (buildExecutionContext d args (documentDefinitions args) = Inl errs \<longrightarrow>
           errs \<noteq> []
           \<and> execute n d args
               = Some (Return (PlainResult \<lparr>resErrors = Some errs, resData = None, resPath = None,
                                            resLabel = None, resHasNext = None\<rparr>)))
        \<and> (buildExecutionContext d args (documentDefinitions args) = Inr ctx \<longrightarrow>
             (executeOperation n d ctx (ctxOperation ctx) (argRootValue args) initialState
                = Some (Raise e, st) \<longrightarrow>
              execute n d args = Some (Return (PlainResult (buildResponse Null (ctxErrors st @ [e])))))
           \<and> (executeOperation n d ctx (ctxOperation ctx) (argRootValue args) initialState
                = Some (Return v, st) \<and> \<not> isPromise v \<and> subsequentPayloads st = [] \<longrightarrow>
              execute n d args = Some (Return (PlainResult (buildResponse v (ctxErrors st)))))
           \<and> (executeOperation n d ctx (ctxOperation ctx) (argRootValue args) initialState
                = Some (Return v, st) \<and> \<not> isPromise v \<and> subsequentPayloads st \<noteq> [] \<longrightarrow>
              execute n d args
                = Some (Return (AsyncGenerator
                     (yieldSubsequentPayloads st (buildResponse v (ctxErrors st))))))
           \<and> (executeOperation n d ctx (ctxOperation ctx) (argRootValue args) initialState
                = Some (Return v, st) \<and> isPromise v \<longrightarrow>
              execute n d args = Some (Return (PromiseResult v st)))
           \<and> (executeOperation n d ctx (ctxOperation ctx) (argRootValue args) initialState = None
                \<longleftrightarrow> execute n d args = None))
        \<and> execute n d args \<noteq> Some (Raise e)
        \<and> (execute n d args = None \<longrightarrow>
             (\<exists>c. buildExecutionContext d args (documentDefinitions args) = Inr c))"
  proof (intro impI conjI)
    assume ok: "assertValidExecutionArguments d (argSchema args) (argDocument args) (argVariableValues args) = None"
    {
      assume l: "buildExecutionContext d args (documentDefinitions args) = Inl errs"
      then show "errs \<noteq> []" by (rule buildExecutionContext_Inl)
      from ok l show "execute n d args
               = Some (Return (PlainResult \<lparr>resErrors = Some errs, resData = None, resPath = None,
                                            resLabel = None, resHasNext = None\<rparr>))"
        by (simp add: execute_def emptyResult_def)
    }
    {
      assume r: "buildExecutionContext d args (documentDefinitions args) = Inr ctx"
      {
        assume "executeOperation n d ctx (ctxOperation ctx) (argRootValue args) initialState
                = Some (Raise e, st)"
        with ok r show "execute n d args = Some (Return (PlainResult (buildResponse Null (ctxErrors st @ [e]))))"
          by (simp add: execute_def executeRejected_def pushError_def)
      }
      {
        assume "executeOperation n d ctx (ctxOperation ctx) (argRootValue args) initialState
                = Some (Return v, st) \<and> \<not> isPromise v \<and> subsequentPayloads st = []"
        with ok r show "execute n d args = Some (Return (PlainResult (buildResponse v (ctxErrors st))))"
          by (simp add: execute_def executeFulfilled_def Let_def)
      }
      {
        assume "executeOperation n d ctx (ctxOperation ctx) (argRootValue args) initialState
                = Some (Return v, st) \<and> \<not> isPromise v \<and> subsequentPayloads st \<noteq> []"
        with ok r show "execute n d args
                = Some (Return (AsyncGenerator
                     (yieldSubsequentPayloads st (buildResponse v (ctxErrors st)))))"
          by (simp add: execute_def executeFulfilled_def Let_def)
      }
      {
        assume "executeOperation n d ctx (ctxOperation ctx) (argRootValue args) initialState
                = Some (Return v, st) \<and> isPromise v"
        with ok r show "execute n d args = Some (Return (PromiseResult v st))"
          by (simp add: execute_def)
      }
      from ok r show "executeOperation n d ctx (ctxOperation ctx) (argRootValue args) initialState = None
                \<longleftrightarrow> execute n d args = None"
        by (auto simp: execute_def split: option.splits outcome.splits prod.splits)
    }
    from ok show "execute n d args \<noteq> Some (Raise e)"
      by (auto simp: execute_def split: option.splits outcome.splits prod.splits sum.splits if_splits)
    {
      assume "execute n d args = None"
      with ok show "\<exists>c. buildExecutionContext d args (documentDefinitions args) = Inr c"
        by (cases "buildExecutionContext d args (documentDefinitions args)")
           (auto simp: execute_def)
    }
  qed
  show ?thesis
    by (intro conjI k1 k2 k3 fwd plain gen ful rej)
qed

text \<open>A document without operations gives the errors alone; scenario S3 gives both keys,
  the data being null; \<^verbatim>\<open>{ x }\<close> on \<^verbatim>\<open>type Q { x: Int }\<close>, where \<^verbatim>\<open>x\<close> resolves to 5, gives
  the data alone.\<close>

theorem response_keys_witness:
  "assertValidExecutionArguments scenarioDeps (scenarioSchema []) (Some []) Undefined = None
   \<and> buildExecutionContext scenarioDeps (scenarioArgs (scenarioSchema []) [] None) []
       = Inl [newError ''Must provide an operation.'']
   \<and> execute 0 scenarioDeps (scenarioArgs (scenarioSchema []) [] None)
       = Some (Return (PlainResult
           \<lparr>resErrors = Some [newError ''Must provide an operation.''], resData = None,
            resPath = None, resLabel = None, resHasNext = None\<rparr>))
   \<and> execute (Suc (Suc 0)) scenarioDeps
        (scenarioArgs (scenarioSchema [constField ''x'' (GraphQLNonNull (LeafType ''Int'')) Null])
           [queryOperation None [plainField ''x'' []]] None)
       = Some (Return (PlainResult
           \<lparr>resErrors = Some [\<lparr>message = ''Cannot return null for non-nullable field Q.x.'',
                                errPath = Some [Key ''x'']\<rparr>],
            resData = Some Null, resPath = None, resLabel = None, resHasNext = None\<rparr>))
   \<and> execute (Suc (Suc 0)) scenarioDeps
        (scenarioArgs (scenarioSchema [constField ''x'' (LeafType ''Int'') (Num 5)])
           [queryOperation None [plainField ''x'' []]] None)
       = Some (Return (PlainResult
           \<lparr>resErrors = None, resData = Some (Obj [(''x'', Num 5)]), resPath = None,
            resLabel = None, resHasNext = None\<rparr>))"
proof -
  let ?B = "scenarioArgs (scenarioSchema []) [] None"
  let ?sA = "scenarioSchema [constField ''x'' (GraphQLNonNull (LeafType ''Int'')) Null]"
  let ?A = "scenarioArgs ?sA [queryOperation None [plainField ''x'' []]] None"
  let ?sC = "scenarioSchema [constField ''x'' (LeafType ''Int'') (Num 5)]"
  let ?C = "scenarioArgs ?sC [queryOperation None [plainField ''x'' []]] None"
  let ?op = "\<lparr>opOperation = QUERY, opName = None, opVariableDefinitions = [],
              opSelectionSet = [plainField ''x'' []]\<rparr>"
  let ?e = "\<lparr>message = ''Cannot return null for non-nullable field Q.x.'', errPath = Some [Key ''x'']\<rparr>"
  have okB: "assertValidExecutionArguments scenarioDeps (scenarioSchema []) (Some []) Undefined = None"
    by (simp add: scenario_defs assertValidExecutionArguments_def)
  have ctxB: "buildExecutionContext scenarioDeps ?B [] = Inl [newError ''Must provide an operation.'']"
    by (simp add: scenarioArgs_def buildExecutionContext_def)
  have okB': "assertValidExecutionArguments scenarioDeps (argSchema ?B) (argDocument ?B) (argVariableValues ?B) = None"
    using okB by (simp add: scenarioArgs_def)
  have ctxB': "buildExecutionContext scenarioDeps ?B (documentDefinitions ?B) = Inl [newError ''Must provide an operation.'']"
    using ctxB by (simp add: scenarioArgs_def documentDefinitions_def)
  note fB = response_keys [where n = 0 and d = scenarioDeps and args = ?B
                           and errs = "[newError ''Must provide an operation.'']",
                           THEN conjunct2, THEN conjunct2, THEN conjunct2, THEN conjunct1,
                           THEN mp, OF okB', THEN conjunct1, THEN mp, OF ctxB', THEN conjunct2]
  have exB: "execute 0 scenarioDeps ?B
       = Some (Return (PlainResult
           \<lparr>resErrors = Some [newError ''Must provide an operation.''], resData = None,
            resPath = None, resLabel = None, resHasNext = None\<rparr>))"
    by (rule fB)
  have okA: "assertValidExecutionArguments scenarioDeps (argSchema ?A) (argDocument ?A) (argVariableValues ?A) = None"
    by (simp add: scenario_defs assertValidExecutionArguments_def)
  have ctxA: "buildExecutionContext scenarioDeps ?A (documentDefinitions ?A)
                = Inr ((scenarioContext ?sA)\<lparr>ctxOperation := ?op\<rparr>)"
    by (simp add: scenario_defs buildExecutionContext_def documentDefinitions_def)
  have opA: "executeOperation (Suc (Suc 0)) scenarioDeps ((scenarioContext ?sA)\<lparr>ctxOperation := ?op\<rparr>)
               (ctxOperation ((scenarioContext ?sA)\<lparr>ctxOperation := ?op\<rparr>)) (argRootValue ?A) initialState
             = Some (Raise ?e, initialState)"
    by (simp add: scenario_defs execute_defs)
  note fA = response_keys [where n = "Suc (Suc 0)" and d = scenarioDeps and args = ?A
                           and ctx = "(scenarioContext ?sA)\<lparr>ctxOperation := ?op\<rparr>"
                           and e = ?e and st = initialState,
                           THEN conjunct2, THEN conjunct2, THEN conjunct2, THEN conjunct1,
                           THEN mp, OF okA, THEN conjunct2, THEN conjunct1, THEN mp, OF ctxA,
                           THEN conjunct1, THEN mp, OF opA]
  have exA: "execute (Suc (Suc 0)) scenarioDeps ?A
       = Some (Return (PlainResult
           \<lparr>resErrors = Some [?e], resData = Some Null, resPath = None, resLabel = None,
            resHasNext = None\<rparr>))"
    using fA by (simp add: buildResponse_def emptyResult_def initialState_def)
  have okC: "assertValidExecutionArguments scenarioDeps (argSchema ?C) (argDocument ?C) (argVariableValues ?C) = None"
    by (simp add: scenario_defs assertValidExecutionArguments_def)
  have ctxC: "buildExecutionContext scenarioDeps ?C (documentDefinitions ?C)
                = Inr ((scenarioContext ?sC)\<lparr>ctxOperation := ?op\<rparr>)"
    by (simp add: scenario_defs buildExecutionContext_def documentDefinitions_def)
  have opC: "executeOperation (Suc (Suc 0)) scenarioDeps ((scenarioContext ?sC)\<lparr>ctxOperation := ?op\<rparr>)
               (ctxOperation ((scenarioContext ?sC)\<lparr>ctxOperation := ?op\<rparr>)) (argRootValue ?C) initialState
             = Some (Return (Obj [(''x'', Num 5)]), initialState)
           \<and> \<not> isPromise (Obj [(''x'', Num 5)]) \<and> subsequentPayloads initialState = []"
    by (simp add: scenario_defs execute_defs)
  note fC = response_keys [where n = "Suc (Suc 0)" and d = scenarioDeps and args = ?C
                           and ctx = "(scenarioContext ?sC)\<lparr>ctxOperation := ?op\<rparr>"
                           and v = "Obj [(''x'', Num 5)]" and st = initialState,
                           THEN conjunct2, THEN conjunct2, THEN conjunct2, THEN conjunct1,
                           THEN mp, OF okC, THEN conjunct2, THEN conjunct1, THEN mp, OF ctxC,
                           THEN conjunct2, THEN conjunct1, THEN mp, OF opC]
  have exC: "execute (Suc (Suc 0)) scenarioDeps ?C
       = Some (Return (PlainResult
           \<lparr>resErrors = None, resData = Some (Obj [(''x'', Num 5)]), resPath = None,
            resLabel = None, resHasNext = None\<rparr>))"
    using fC by (simp add: buildResponse_def emptyResult_def initialState_def)
  show ?thesis by (intro conjI okB ctxB exB exA exC)
qed

subsection \<open>Selecting the operation\<close>

lemma selectOperation_unnamed_second:
  "operationDefinitions ds \<noteq> [] \<Longrightarrow>
   selectOperation None ds (Some od) fragments =
     Inl [newError ''Must provide operation name if query contains multiple operations.'']"
  by (induction ds arbitrary: fragments rule: operationDefinitions.induct) auto

lemma selectOperation_unnamed_many:
  "2 \<le> length (operationDefinitions ds) \<Longrightarrow>
   selectOperation None ds None fragments =
     Inl [newError ''Must provide operation name if query contains multiple operations.'']"
proof (induction ds arbitrary: fragments rule: operationDefinitions.induct)
  case (2 od ds)
  then have "operationDefinitions ds \<noteq> []" by auto
  then show ?case by (simp add: selectOperation_unnamed_second)
qed auto

lemma selectOperation_unnamed_none:
  "operationDefinitions ds = [] \<Longrightarrow> \<exists>frs. selectOperation None ds None fragments = Inr (None, frs)"
  by (induction ds arbitrary: fragments rule: operationDefinitions.induct) auto

lemma selectOperation_no_match:
  "\<forall>od \<in> set (operationDefinitions ds). opName od \<noteq> Some wanted \<Longrightarrow>
   \<exists>frs. selectOperation (Some wanted) ds operation fragments = Inr (operation, frs)"
  by (induction ds arbitrary: fragments rule: operationDefinitions.induct) auto

text \<open>
  Claim C8. For arguments that pass \<open>assertValidExecutionArguments\<close>, \<open>execute\<close> returns,
  whatever the schema, its resolvers and the depth bound, the response that holds only
  the \<^verbatim>\<open>errors\<close> key, with one error: \<^verbatim>\<open>Must provide operation name if query contains
  multiple operations.\<close> when no operation name is given and the document has two or more
  operations; \<^verbatim>\<open>Unknown operation named "<name>".\<close> when a name is given and no operation
  of the document has it; \<^verbatim>\<open>Must provide an operation.\<close> when no name is given and the
  document has no operation.
\<close>

theorem operation_selection_failures:
  assumes "assertValidExecutionArguments d (argSchema args) (argDocument args) (argVariableValues args) = None"
  shows "(argOperationName args = None \<and> 2 \<le> length (operationDefinitions (documentDefinitions args)) \<longrightarrow>
            execute n d args = Some (Return (PlainResult (emptyResult\<lparr>resErrors :=
              Some [newError ''Must provide operation name if query contains multiple operations.'']\<rparr>))))
       \<and> (argOperationName args = Some wanted
            \<and> (\<forall>od \<in> set (operationDefinitions (documentDefinitions args)). opName od \<noteq> Some wanted) \<longrightarrow>
            execute n d args = Some (Return (PlainResult (emptyResult\<lparr>resErrors :=
              Some [newError (''Unknown operation named \"'' @ wanted @ ''\".'')]\<rparr>))))
       \<and> (argOperationName args = None \<and> operationDefinitions (documentDefinitions args) = [] \<longrightarrow>
            execute n d args = Some (Return (PlainResult (emptyResult\<lparr>resErrors :=
              Some [newError ''Must provide an operation.'']\<rparr>))))"
proof (intro conjI impI)
  assume h: "argOperationName args = None \<and> 2 \<le> length (operationDefinitions (documentDefinitions args))"
  then have "selectOperation None (documentDefinitions args) None [] =
     Inl [newError ''Must provide operation name if query contains multiple operations.'']"
    by (simp add: selectOperation_unnamed_many)
  with h assms show "execute n d args = Some (Return (PlainResult (emptyResult\<lparr>resErrors :=
              Some [newError ''Must provide operation name if query contains multiple operations.'']\<rparr>)))"
    by (simp add: execute_def buildExecutionContext_def)
next
  assume h: "argOperationName args = Some wanted
            \<and> (\<forall>od \<in> set (operationDefinitions (documentDefinitions args)). opName od \<noteq> Some wanted)"
  then obtain frs where "selectOperation (Some wanted) (documentDefinitions args) None [] = Inr (None, frs)"
    using selectOperation_no_match by blast
  with h assms show "execute n d args = Some (Return (PlainResult (emptyResult\<lparr>resErrors :=
              Some [newError (''Unknown operation named \"'' @ wanted @ ''\".'')]\<rparr>)))"
    by (simp add: execute_def buildExecutionContext_def)
next
  assume h: "argOperationName args = None \<and> operationDefinitions (documentDefinitions args) = []"
  then obtain frs where "selectOperation None (documentDefinitions args) None [] = Inr (None, frs)"
    using selectOperation_unnamed_none by blast
  with h assms show "execute n d args = Some (Return (PlainResult (emptyResult\<lparr>resErrors :=
              Some [newError ''Must provide an operation.'']\<rparr>)))"
    by (simp add: execute_def buildExecutionContext_def)
qed

text \<open>Two anonymous queries and no name; the name \<^verbatim>\<open>B\<close> for a document whose only
  operation is named \<^verbatim>\<open>A\<close>; a document of one fragment definition and no name.\<close>

theorem operation_selection_failures_witness:
  "execute 0 scenarioDeps
     (scenarioArgs (scenarioSchema [])
        [queryOperation None [plainField ''x'' []], queryOperation None [plainField ''y'' []]] None)
     = Some (Return (PlainResult
         \<lparr>resErrors = Some [\<lparr>message = ''Must provide operation name if query contains multiple operations.'',
                              errPath = None\<rparr>],
          resData = None, resPath = None, resLabel = None, resHasNext = None\<rparr>))
   \<and> execute 0 scenarioDeps
       (scenarioArgs (scenarioSchema []) [queryOperation (Some ''A'') [plainField ''x'' []]] (Some ''B''))
     = Some (Return (PlainResult
         \<lparr>resErrors = Some [\<lparr>message = ''Unknown operation named \"B\".'', errPath = None\<rparr>],
          resData = None, resPath = None, resLabel = None, resHasNext = None\<rparr>))
   \<and> execute 0 scenarioDeps
       (scenarioArgs (scenarioSchema [])
          [FragmentDefinition \<lparr>fragName = ''F'', fragTypeCondition = ''Q'', fragSelectionSet = []\<rparr>] None)
     = Some (Return (PlainResult
         \<lparr>resErrors = Some [\<lparr>message = ''Must provide an operation.'', errPath = None\<rparr>],
          resData = None, resPath = None, resLabel = None, resHasNext = None\<rparr>))"
  using operation_selection_failures
    [where d = scenarioDeps and n = 0
       and args = "scenarioArgs (scenarioSchema [])
          [queryOperation None [plainField ''x'' []], queryOperation None [plainField ''y'' []]] None"]
    operation_selection_failures
    [where d = scenarioDeps and n = 0 and wanted = "''B''"
       and args = "scenarioArgs (scenarioSchema []) [queryOperation (Some ''A'') [plainField ''x'' []]]
                     (Some ''B'')"]
    operation_selection_failures
    [where d = scenarioDeps and n = 0
       and args = "scenarioArgs (scenarioSchema [])
          [FragmentDefinition \<lparr>fragName = ''F'', fragTypeCondition = ''Q'', fragSelectionSet = []\<rparr>] None"]
  by (simp add: scenarioArgs_def scenarioSchema_def scenarioDeps_def queryOperation_def
      assertValidExecutionArguments_def documentDefinitions_def emptyResult_def newError_def)

subsection \<open>executeSync\<close>

lemma scenario_promise:
  "execute (Suc k) scenarioDeps
     (scenarioArgs (scenarioSchema [constField ''x'' (LeafType ''Int'') Promise])
        [queryOperation None [plainField ''x'' []]] None)
   = Some (Return (PromiseResult (PromiseForObject [(''x'', PromiseThen (PromiseThen Promise))])
             initialState))"
  by (simp add: scenario_defs execute_defs)

lemma scenario_S7:
  "\<exists>y. execute (Suc (Suc k)) scenarioDeps
     (scenarioArgs
        (scenarioSchema [constField ''list'' (GraphQLList (LeafType ''Int''))
                           (Arr [Num 10, Num 20, Num 30, Num 40])])
        [queryOperation None [plainField ''list'' [(''stream'', [(''initialCount'', Num 2)])]]] None)
   = Some (Return (AsyncGenerator y))
   \<and> yInitialResult y = emptyResult\<lparr>resData := Some (Obj [(''list'', Arr [Num 10, Num 20])])\<rparr>
   \<and> subsequentPayloads (yState y) = [0, 1]
   \<and> map (\<lambda>rid. map_option pathToArray (prPath (records (yState y) rid))) [0, 1]
        = [Some [Key ''list'', Index 2], Some [Key ''list'', Index 3]]"
  by (simp add: scenario_defs execute_defs complete_defs)

text \<open>
  Claim C9. \<open>executeSync\<close> returns the response that \<open>execute\<close> returns when that is a
  plain response, raises the error \<^verbatim>\<open>GraphQL execution failed to complete synchronously.\<close>
  when \<open>execute\<close> returns a promise or the asynchronous generator, and raises what
  \<open>execute\<close> raises.
\<close>

theorem executeSync_agrees:
  "(execute n d args = Some (Return (PlainResult r)) \<longrightarrow> executeSync n d args = Some (Return r))
   \<and> (execute n d args = Some (Return (PromiseResult pr st)) \<longrightarrow>
        executeSync n d args
          = Some (Raise (newError ''GraphQL execution failed to complete synchronously.'')))
   \<and> (execute n d args = Some (Return (AsyncGenerator y)) \<longrightarrow>
        executeSync n d args
          = Some (Raise (newError ''GraphQL execution failed to complete synchronously.'')))
   \<and> (execute n d args = Some (Raise e) \<longrightarrow> executeSync n d args = Some (Raise e))
   \<and> (execute n d args = None \<longrightarrow> executeSync n d args = None)"
  by (simp add: executeSync_def)

text \<open>Scenario S3 is returned as it is; a resolver that returns a promise, and scenario
  S7 (a streamed list), make \<open>executeSync\<close> raise.\<close>

theorem executeSync_agrees_witness:
  "executeSync (Suc (Suc 0)) scenarioDeps
     (scenarioArgs (scenarioSchema [constField ''x'' (GraphQLNonNull (LeafType ''Int'')) Null])
        [queryOperation None [plainField ''x'' []]] None)
     = Some (Return
         \<lparr>resErrors = Some [\<lparr>message = ''Cannot return null for non-nullable field Q.x.'',
                              errPath = Some [Key ''x'']\<rparr>],
          resData = Some Null, resPath = None, resLabel = None, resHasNext = None\<rparr>)
   \<and> executeSync (Suc (Suc 0)) scenarioDeps
       (scenarioArgs (scenarioSchema [constField ''x'' (LeafType ''Int'') Promise])
          [queryOperation None [plainField ''x'' []]] None)
     = Some (Raise (newError ''GraphQL execution failed to complete synchronously.''))
   \<and> executeSync (Suc (Suc 0)) scenarioDeps
       (scenarioArgs
          (scenarioSchema [constField ''list'' (GraphQLList (LeafType ''Int''))
                             (Arr [Num 10, Num 20, Num 30, Num 40])])
          [queryOperation None [plainField ''list'' [(''stream'', [(''initialCount'', Num 2)])]]] None)
     = Some (Raise (newError ''GraphQL execution failed to complete synchronously.''))"
proof -
  obtain y where gen: "execute (Suc (Suc 0)) scenarioDeps
     (scenarioArgs
        (scenarioSchema [constField ''list'' (GraphQLList (LeafType ''Int''))
                           (Arr [Num 10, Num 20, Num 30, Num 40])])
        [queryOperation None [plainField ''list'' [(''stream'', [(''initialCount'', Num 2)])]]] None)
   = Some (Return (AsyncGenerator y))"
    using scenario_S7 [of 0] by blast
  show ?thesis
    using executeSync_agrees
      [where n = "Suc (Suc 0)" and d = scenarioDeps
         and args = "scenarioArgs (scenarioSchema [constField ''x'' (GraphQLNonNull (LeafType ''Int'')) Null])
                       [queryOperation None [plainField ''x'' []]] None"
         and r = "\<lparr>resErrors = Some [\<lparr>message = ''Cannot return null for non-nullable field Q.x.'',
                              errPath = Some [Key ''x'']\<rparr>],
                    resData = Some Null, resPath = None, resLabel = None, resHasNext = None\<rparr>"]
      executeSync_agrees
      [where n = "Suc (Suc 0)" and d = scenarioDeps
         and args = "scenarioArgs (scenarioSchema [constField ''x'' (LeafType ''Int'') Promise])
                       [queryOperation None [plainField ''x'' []]] None"
         and pr = "PromiseForObject [(''x'', PromiseThen (PromiseThen Promise))]" and st = initialState]
      executeSync_agrees
      [where n = "Suc (Suc 0)" and d = scenarioDeps and y = y
         and args = "scenarioArgs
            (scenarioSchema [constField ''list'' (GraphQLList (LeafType ''Int''))
                               (Arr [Num 10, Num 20, Num 30, Num 40])])
            [queryOperation None [plainField ''list'' [(''stream'', [(''initialCount'', Num 2)])]]] None"]
      scenario_S3 [of 0] scenario_promise [of "Suc 0"] gen
    by simp
qed

subsection \<open>The race of the yielder\<close>

lemma raceSettled_completed:
  assumes "rid \<in> set (subsequentPayloads st)" and "prIsCompletedIterator (records st rid)"
  shows "raceSettled rid dat st
           = (RaceAgain, st\<lparr>subsequentPayloads := remove1 rid (subsequentPayloads st)\<rparr>)"
  using assms by (auto simp: raceSettled_def Let_def)

lemma raceSettled_Yield:
  assumes "raceSettled rid dat st = (Resolve (Yield r), st')"
  shows "rid \<in> set (subsequentPayloads st) \<and> \<not> prIsCompletedIterator (records st rid)
       \<and> subsequentPayloads st' = remove1 rid (subsequentPayloads st)
       \<and> resHasNext r = Some (subsequentPayloads st' \<noteq> []) \<and> resData r = Some dat"
  using assms by (auto simp: raceSettled_def Let_def split: if_splits)

lemma race_hasNext:
  "race settlements st = (Some (Yield r), st') \<Longrightarrow> resHasNext r = Some (subsequentPayloads st' \<noteq> [])"
proof (induction settlements arbitrary: st)
  case Nil
  then show ?case by (auto simp: emptyResult_def split: if_splits)
next
  case (Cons s settlements)
  obtain rid dat where s: "s = (rid, dat)" by (cases s)
  show ?case
  proof (cases "subsequentPayloads st = []")
    case True
    with Cons.prems show ?thesis by (auto simp: s emptyResult_def)
  next
    case False
    obtain step sa where rs: "raceSettled rid dat st = (step, sa)" by (cases "raceSettled rid dat st")
    show ?thesis
    proof (cases step)
      case (Resolve res)
      with Cons.prems False rs s have "res = Yield r" and "sa = st'" by auto
      with rs Resolve show ?thesis using raceSettled_Yield by blast
    next
      case RaceAgain
      with Cons.prems False rs s have "race settlements sa = (Some (Yield r), st')" by auto
      then show ?thesis by (rule Cons.IH)
    qed
  qed
qed

lemmas twoLists_defs = otherListNode_def twoListsSchema_def twoListsArgs_def twoListsFinished_def
  twoListsYielder_def

lemma twoLists_pending:
  "subsequentPayloads twoListsFinished = [0, 1] \<and> ctxErrors twoListsFinished = [] \<and> prErrors (records twoListsFinished 1) = [] \<and> prLabel (records twoListsFinished 1) = None \<and> prIsCompletedIterator (records twoListsFinished 0)
   \<and> \<not> prIsCompletedIterator (records twoListsFinished 1)
   \<and> prPath (records twoListsFinished 1) = Some (Path (Some (Path None (Key ''other'') (Some ''Q''))) (Index 0) None)"
  by (simp add: twoLists_defs asyncList_defs scenario_defs execute_defs complete_defs)

lemma twoLists_state:
  "yState twoListsYielder = twoListsFinished \<and> \<not> hasReturnedInitialResult twoListsYielder
   \<and> \<not> isDone twoListsYielder
   \<and> yInitialResult twoListsYielder
        = emptyResult\<lparr>resData := Some (Obj [(''list'', Arr []), (''other'', Arr [])])\<rparr>"
  using twoLists_pending by (simp add: twoListsYielder_def executeFulfilled_def yieldSubsequentPayloads_def Let_def buildResponse_def)

lemma streamedList_state:
  "\<not> hasReturnedInitialResult streamedListYielder \<and> \<not> isDone streamedListYielder
   \<and> subsequentPayloads (yState streamedListYielder) = [0, 1]
   \<and> \<not> prIsCompletedIterator (records (yState streamedListYielder) 0)
   \<and> \<not> prIsCompletedIterator (records (yState streamedListYielder) 1)
   \<and> prErrors (records (yState streamedListYielder) 0) = []
   \<and> prErrors (records (yState streamedListYielder) 1) = []
   \<and> prLabel (records (yState streamedListYielder) 0) = None
   \<and> prLabel (records (yState streamedListYielder) 1) = None
   \<and> prPath (records (yState streamedListYielder) 0)
        = Some (Path (Some asyncListPath) (Index 2) None)
   \<and> prPath (records (yState streamedListYielder) 1)
        = Some (Path (Some asyncListPath) (Index 3) None)"
  by (simp add: streamedListYielder_def list_defs scenario_defs execute_defs complete_defs)

lemma asyncList_state:
  "yState (asyncListYielder asyncListFinished) = asyncListFinished
   \<and> \<not> isDone (asyncListYielder asyncListFinished)
   \<and> subsequentPayloads asyncListFinished = [0, 1]
   \<and> \<not> prIsCompletedIterator (records asyncListFinished 0)
   \<and> prIsCompletedIterator (records asyncListFinished 1)
   \<and> prErrors (records asyncListFinished 0) = []
   \<and> prLabel (records asyncListFinished 0) = None
   \<and> prPath (records asyncListFinished 0) = Some (Path (Some asyncListPath) (Index 0) None)"
  by (simp add: asyncList_defs scenario_defs execute_defs complete_defs)

lemma yielderNext_race:
  "hasReturnedInitialResult y \<Longrightarrow> \<not> isDone y \<Longrightarrow> subsequentPayloads (yState y) \<noteq> []
   \<Longrightarrow> yielderNext settlements y
        = (case race settlements (yState y) of (res, sb) \<Rightarrow> (res, y\<lparr>yState := sb\<rparr>))"
  by (simp add: yielderNext_def)

text \<open>
  Claim C5. A call of \<^verbatim>\<open>next\<close> after the initial result, on a yielder that is not done and
  has pending records, runs the race. When the record whose data promise settles first is
  pending and marked \<^verbatim>\<open>isCompletedIterator\<close>, the call removes it and answers with what the
  race, run again in the state without it, gives: no patch is made for that record. When
  that record is not marked, the call removes it and answers with its patch, made of the
  data and the record's path, label and errors, and \<^verbatim>\<open>hasNext\<close> of the patch is true
  exactly when a record is still pending after the removal. A race without pending records
  answers with \<^verbatim>\<open>hasNext\<close> false alone. So every response that a race yields, and every
  response that a call of \<^verbatim>\<open>next\<close> yields after the initial result, has \<^verbatim>\<open>hasNext\<close> true
  exactly when a record is pending in the state it leaves.
\<close>

theorem race_drops_completed_and_reports_hasNext:
  "(rid \<in> set (subsequentPayloads st) \<and> prIsCompletedIterator (records st rid) \<longrightarrow>
      raceSettled rid dat st
        = (RaceAgain, st\<lparr>subsequentPayloads := remove1 rid (subsequentPayloads st)\<rparr>)
      \<and> race ((rid, dat) # later) st
          = race later (st\<lparr>subsequentPayloads := remove1 rid (subsequentPayloads st)\<rparr>))
   \<and> (raceSettled rid dat st = (Resolve (Yield r), st') \<longrightarrow>
        subsequentPayloads st' = remove1 rid (subsequentPayloads st)
        \<and> resHasNext r = Some (remove1 rid (subsequentPayloads st) \<noteq> []))
   \<and> (race settlements st = (Some (Yield r), st') \<longrightarrow>
        resHasNext r = Some (subsequentPayloads st' \<noteq> []))
   \<and> (hasReturnedInitialResult y \<and> yielderNext settlements y = (Some (Yield r), y') \<longrightarrow>
        resHasNext r = Some (subsequentPayloads (yState y') \<noteq> []))
   \<and> (hasReturnedInitialResult y \<and> \<not> isDone y \<and> rid \<in> set (subsequentPayloads (yState y))
        \<and> prIsCompletedIterator (records (yState y) rid) \<longrightarrow>
        yielderNext ((rid, dat) # later) y
          = (case race later ((yState y)\<lparr>subsequentPayloads := remove1 rid (subsequentPayloads (yState y))\<rparr>) of
               (res, sb) \<Rightarrow> (res, y\<lparr>yState := sb\<rparr>)))
   \<and> (hasReturnedInitialResult y \<and> \<not> isDone y \<and> rid \<in> set (subsequentPayloads (yState y))
        \<and> \<not> prIsCompletedIterator (records (yState y) rid) \<longrightarrow>
        yielderNext ((rid, dat) # later) y
          = (Some (Yield
               \<lparr>resErrors = (if prErrors (records (yState y) rid) = [] then None
                              else Some (prErrors (records (yState y) rid))),
                resData = Some dat,
                resPath = Some (case prPath (records (yState y) rid) of
                                  Some p \<Rightarrow> pathToArray p | None \<Rightarrow> []),
                resLabel = (case prLabel (records (yState y) rid) of
                              Some l \<Rightarrow> (if l \<noteq> [] then Some l else None) | None \<Rightarrow> None),
                resHasNext = Some (remove1 rid (subsequentPayloads (yState y)) \<noteq> [])\<rparr>),
             y\<lparr>yState := (yState y)\<lparr>subsequentPayloads := remove1 rid (subsequentPayloads (yState y))\<rparr>\<rparr>))
   \<and> (subsequentPayloads st = [] \<longrightarrow>
        race settlements st = (Some (Yield (emptyResult\<lparr>resHasNext := Some False\<rparr>)), st))"
proof (intro conjI impI)
  assume h: "rid \<in> set (subsequentPayloads st) \<and> prIsCompletedIterator (records st rid)"
  then show a: "raceSettled rid dat st
        = (RaceAgain, st\<lparr>subsequentPayloads := remove1 rid (subsequentPayloads st)\<rparr>)"
    by (simp add: raceSettled_completed)
  from h have "subsequentPayloads st \<noteq> []" by auto
  then show "race ((rid, dat) # later) st
          = race later (st\<lparr>subsequentPayloads := remove1 rid (subsequentPayloads st)\<rparr>)"
    by (simp add: a)
next
  assume h: "raceSettled rid dat st = (Resolve (Yield r), st')"
  then show "subsequentPayloads st' = remove1 rid (subsequentPayloads st)"
    using raceSettled_Yield by blast
  from h show "resHasNext r = Some (remove1 rid (subsequentPayloads st) \<noteq> [])"
    using raceSettled_Yield by fastforce
next
  assume "race settlements st = (Some (Yield r), st')"
  then show "resHasNext r = Some (subsequentPayloads st' \<noteq> [])" by (rule race_hasNext)
next
  assume h: "hasReturnedInitialResult y \<and> yielderNext settlements y = (Some (Yield r), y')"
  then obtain sa where "race settlements (yState y) = (Some (Yield r), sa)" and "yState y' = sa"
    by (auto simp: yielderNext_def split: if_splits prod.splits)
  then show "resHasNext r = Some (subsequentPayloads (yState y') \<noteq> [])"
    using race_hasNext by blast
next
  assume h: "hasReturnedInitialResult y \<and> \<not> isDone y \<and> rid \<in> set (subsequentPayloads (yState y))
        \<and> prIsCompletedIterator (records (yState y) rid)"
  then have ne: "subsequentPayloads (yState y) \<noteq> []" by auto
  from h have rs: "raceSettled rid dat (yState y)
        = (RaceAgain, (yState y)\<lparr>subsequentPayloads := remove1 rid (subsequentPayloads (yState y))\<rparr>)"
    by (simp add: raceSettled_completed)
  from h ne have "yielderNext ((rid, dat) # later) y
        = (case race ((rid, dat) # later) (yState y) of (res, sb) \<Rightarrow> (res, y\<lparr>yState := sb\<rparr>))"
    by (simp add: yielderNext_race)
  also from ne rs have "race ((rid, dat) # later) (yState y)
        = race later ((yState y)\<lparr>subsequentPayloads := remove1 rid (subsequentPayloads (yState y))\<rparr>)"
    by simp
  finally show "yielderNext ((rid, dat) # later) y
          = (case race later ((yState y)\<lparr>subsequentPayloads := remove1 rid (subsequentPayloads (yState y))\<rparr>) of
               (res, sb) \<Rightarrow> (res, y\<lparr>yState := sb\<rparr>))" .
next
  assume h: "hasReturnedInitialResult y \<and> \<not> isDone y \<and> rid \<in> set (subsequentPayloads (yState y))
        \<and> \<not> prIsCompletedIterator (records (yState y) rid)"
  then have ne: "subsequentPayloads (yState y) \<noteq> []" by auto
  from h ne have step: "yielderNext ((rid, dat) # later) y
        = (case race ((rid, dat) # later) (yState y) of (res, sb) \<Rightarrow> (res, y\<lparr>yState := sb\<rparr>))"
    by (simp add: yielderNext_race)
  from h ne show "yielderNext ((rid, dat) # later) y
          = (Some (Yield
               \<lparr>resErrors = (if prErrors (records (yState y) rid) = [] then None
                              else Some (prErrors (records (yState y) rid))),
                resData = Some dat,
                resPath = Some (case prPath (records (yState y) rid) of
                                  Some p \<Rightarrow> pathToArray p | None \<Rightarrow> []),
                resLabel = (case prLabel (records (yState y) rid) of
                              Some l \<Rightarrow> (if l \<noteq> [] then Some l else None) | None \<Rightarrow> None),
                resHasNext = Some (remove1 rid (subsequentPayloads (yState y)) \<noteq> [])\<rparr>),
             y\<lparr>yState := (yState y)\<lparr>subsequentPayloads := remove1 rid (subsequentPayloads (yState y))\<rparr>\<rparr>)"
    unfolding step by (simp add: raceSettled_def Let_def)
next
  assume "subsequentPayloads st = []"
  then show "race settlements st = (Some (Yield (emptyResult\<lparr>resHasNext := Some False\<rparr>)), st)"
    by simp
qed

text \<open>Three runs of \<^verbatim>\<open>next\<close>, the data promises settling in the order of the records. With
  the two streamed lists, the first call gives the initial result; in the second the
  record of the finished iterator settles first and is dropped, and the race run again
  gives the patch of \<^verbatim>\<open>other[0]\<close> with \<^verbatim>\<open>hasNext\<close> false. In scenario S7 the patches of the
  items 30 and 40 have \<^verbatim>\<open>hasNext\<close> true and false. With the asynchronous list after one
  item and the end of the iterator, the patch of the item has \<^verbatim>\<open>hasNext\<close> true, and the
  record of the finished iterator is then dropped, which leaves \<^verbatim>\<open>hasNext\<close> false alone.\<close>

theorem race_drops_completed_and_reports_hasNext_witness:
  "yielderNext [] twoListsYielder
     = (Some (Yield \<lparr>resErrors = None, resData = Some (Obj [(''list'', Arr []), (''other'', Arr [])]),
                     resPath = None, resLabel = None, resHasNext = Some True\<rparr>),
        twoListsYielder\<lparr>hasReturnedInitialResult := True\<rparr>)
   \<and> subsequentPayloads (yState twoListsYielder) = [0, 1]
   \<and> prIsCompletedIterator (records (yState twoListsYielder) 0)
   \<and> yielderNext [(0, Null), (1, Num 5)] (twoListsYielder\<lparr>hasReturnedInitialResult := True\<rparr>)
     = (Some (Yield \<lparr>resErrors = None, resData = Some (Num 5),
                     resPath = Some [Key ''other'', Index 0], resLabel = None,
                     resHasNext = Some False\<rparr>),
        twoListsYielder\<lparr>hasReturnedInitialResult := True,
                         yState := twoListsFinished\<lparr>subsequentPayloads := []\<rparr>\<rparr>)
   \<and> yielderNext [(0, Num 30)] (streamedListYielder\<lparr>hasReturnedInitialResult := True\<rparr>)
     = (Some (Yield \<lparr>resErrors = None, resData = Some (Num 30),
                     resPath = Some [Key ''list'', Index 2], resLabel = None,
                     resHasNext = Some True\<rparr>),
        streamedListYielder\<lparr>hasReturnedInitialResult := True,
                             yState := (yState streamedListYielder)\<lparr>subsequentPayloads := [1]\<rparr>\<rparr>)
   \<and> yielderNext [(1, Num 40)]
        (streamedListYielder\<lparr>hasReturnedInitialResult := True,
                             yState := (yState streamedListYielder)\<lparr>subsequentPayloads := [1]\<rparr>\<rparr>)
     = (Some (Yield \<lparr>resErrors = None, resData = Some (Num 40),
                     resPath = Some [Key ''list'', Index 3], resLabel = None,
                     resHasNext = Some False\<rparr>),
        streamedListYielder\<lparr>hasReturnedInitialResult := True,
                             yState := (yState streamedListYielder)\<lparr>subsequentPayloads := []\<rparr>\<rparr>)
   \<and> yielderNext [(0, Num 10)] ((asyncListYielder asyncListFinished)\<lparr>hasReturnedInitialResult := True\<rparr>)
     = (Some (Yield \<lparr>resErrors = None, resData = Some (Num 10),
                     resPath = Some [Key ''list'', Index 0], resLabel = None,
                     resHasNext = Some True\<rparr>),
        (asyncListYielder asyncListFinished)
          \<lparr>hasReturnedInitialResult := True, yState := asyncListFinished\<lparr>subsequentPayloads := [1]\<rparr>\<rparr>)
   \<and> yielderNext [(1, Null)]
        ((asyncListYielder asyncListFinished)
           \<lparr>hasReturnedInitialResult := True, yState := asyncListFinished\<lparr>subsequentPayloads := [1]\<rparr>\<rparr>)
     = (Some (Yield \<lparr>resErrors = None, resData = None, resPath = None, resLabel = None,
                     resHasNext = Some False\<rparr>),
        (asyncListYielder asyncListFinished)
          \<lparr>hasReturnedInitialResult := True, yState := asyncListFinished\<lparr>subsequentPayloads := []\<rparr>\<rparr>)"
proof -
  let ?t = "twoListsYielder\<lparr>hasReturnedInitialResult := True\<rparr>"
  let ?s = "streamedListYielder\<lparr>hasReturnedInitialResult := True\<rparr>"
  let ?s' = "streamedListYielder\<lparr>hasReturnedInitialResult := True,
                             yState := (yState streamedListYielder)\<lparr>subsequentPayloads := [1]\<rparr>\<rparr>"
  let ?a = "(asyncListYielder asyncListFinished)\<lparr>hasReturnedInitialResult := True\<rparr>"
  let ?a' = "(asyncListYielder asyncListFinished)
           \<lparr>hasReturnedInitialResult := True, yState := asyncListFinished\<lparr>subsequentPayloads := [1]\<rparr>\<rparr>"
  note T = twoLists_state twoLists_pending
  note S = streamedList_state
  note A = asyncList_state
  have first: "yielderNext [] twoListsYielder
     = (Some (Yield \<lparr>resErrors = None, resData = Some (Obj [(''list'', Arr []), (''other'', Arr [])]),
                     resPath = None, resLabel = None, resHasNext = Some True\<rparr>),
        twoListsYielder\<lparr>hasReturnedInitialResult := True\<rparr>)"
    using T by (simp add: yielderNext_def emptyResult_def)
  have pending: "subsequentPayloads (yState twoListsYielder) = [0, 1]"
    and completed: "prIsCompletedIterator (records (yState twoListsYielder) 0)"
    using T by simp_all
  have dropped: "yielderNext [(0, Null), (1, Num 5)] ?t
     = (Some (Yield \<lparr>resErrors = None, resData = Some (Num 5),
                     resPath = Some [Key ''other'', Index 0], resLabel = None,
                     resHasNext = Some False\<rparr>),
        twoListsYielder\<lparr>hasReturnedInitialResult := True,
                         yState := twoListsFinished\<lparr>subsequentPayloads := []\<rparr>\<rparr>)"
    using race_drops_completed_and_reports_hasNext [where y = ?t and rid = 0 and dat = Null and later = "[(1, Num 5)]", THEN conjunct2, THEN conjunct2, THEN conjunct2, THEN conjunct2, THEN conjunct1] T
    by (simp add: raceSettled_def Let_def)
  have third: "yielderNext [(0, Num 30)] ?s
     = (Some (Yield \<lparr>resErrors = None, resData = Some (Num 30),
                     resPath = Some [Key ''list'', Index 2], resLabel = None,
                     resHasNext = Some True\<rparr>),
        ?s')"
    using race_drops_completed_and_reports_hasNext [where y = ?s and rid = 0 and dat = "Num 30" and later = "[]", THEN conjunct2, THEN conjunct2, THEN conjunct2, THEN conjunct2, THEN conjunct2, THEN conjunct1] S
    by (simp add: asyncListPath_def)
  have fourth: "yielderNext [(1, Num 40)] ?s'
     = (Some (Yield \<lparr>resErrors = None, resData = Some (Num 40),
                     resPath = Some [Key ''list'', Index 3], resLabel = None,
                     resHasNext = Some False\<rparr>),
        streamedListYielder\<lparr>hasReturnedInitialResult := True,
                             yState := (yState streamedListYielder)\<lparr>subsequentPayloads := []\<rparr>\<rparr>)"
    using race_drops_completed_and_reports_hasNext [where y = ?s' and rid = 1 and dat = "Num 40" and later = "[]", THEN conjunct2, THEN conjunct2, THEN conjunct2, THEN conjunct2, THEN conjunct2, THEN conjunct1] S
    by (simp add: asyncListPath_def)
  have item: "yielderNext [(0, Num 10)] ?a
     = (Some (Yield \<lparr>resErrors = None, resData = Some (Num 10),
                     resPath = Some [Key ''list'', Index 0], resLabel = None,
                     resHasNext = Some True\<rparr>),
        ?a')"
    using race_drops_completed_and_reports_hasNext [where y = ?a and rid = 0 and dat = "Num 10" and later = "[]", THEN conjunct2, THEN conjunct2, THEN conjunct2, THEN conjunct2, THEN conjunct2, THEN conjunct1] A
    by (simp add: asyncListPath_def)
  have finished: "yielderNext [(1, Null)] ?a'
     = (Some (Yield \<lparr>resErrors = None, resData = None, resPath = None, resLabel = None,
                     resHasNext = Some False\<rparr>),
        (asyncListYielder asyncListFinished)
          \<lparr>hasReturnedInitialResult := True, yState := asyncListFinished\<lparr>subsequentPayloads := []\<rparr>\<rparr>)"
    using race_drops_completed_and_reports_hasNext [where y = ?a' and rid = 1 and dat = Null and later = "[]", THEN conjunct2, THEN conjunct2, THEN conjunct2, THEN conjunct2, THEN conjunct1] A
    by (simp add: emptyResult_def)
  show ?thesis
    by (intro conjI first pending completed dropped third fourth item finished)
qed

subsection \<open>Returning the yielder\<close>

lemma count_asked:
  "count_list (map fst (List.map_filter (\<lambda>rid. returnIterator (records st rid)) rids)) i
     = length (filter (carriesIterator st i) rids)"
  by (induction rids) (auto simp: List.map_filter_simps carriesIterator_def split: option.splits)

lemma no_rejections:
  "list_all (\<lambda>rid. \<not> returnRejects st rid) rids \<Longrightarrow>
   List.map_filter snd (List.map_filter (\<lambda>rid. returnIterator (records st rid)) rids) = []"
  by (induction rids) (auto simp: List.map_filter_simps returnRejects_def split: option.splits)

text \<open>
  Claim C7, as the code has it. A call of \<^verbatim>\<open>return\<close> on the yielder asks the source
  iterator of every pending record that carries one with a \<^verbatim>\<open>return\<close> method, once for each
  such record: the number of times an iterator is asked grows by the number of pending
  records that carry it (none for an iterator carried only by records that are no longer
  pending, two or more for an iterator that several pending records share). The pending
  records stay as they are. When none of the calls is rejected, \<^verbatim>\<open>return\<close> resolves with
  completion and marks the yielder done, and every later call of \<^verbatim>\<open>next\<close> reports
  completion, provided the initial result had been returned before.
\<close>

theorem return_asks_each_pending_record:
  "count_list (returnCalls (snd (yielderReturn y))) i
     = count_list (returnCalls y) i
       + length (filter (carriesIterator (yState y) i) (subsequentPayloads (yState y)))
   \<and> yState (snd (yielderReturn y)) = yState y
   \<and> (list_all (\<lambda>rid. \<not> returnRejects (yState y) rid) (subsequentPayloads (yState y)) \<longrightarrow>
        fst (yielderReturn y) = Return Done \<and> isDone (snd (yielderReturn y))
        \<and> (hasReturnedInitialResult y \<longrightarrow>
             yielderNext settlements (snd (yielderReturn y)) = (Some Done, snd (yielderReturn y))))"
proof (intro conjI impI)
  show "count_list (returnCalls (snd (yielderReturn y))) i
     = count_list (returnCalls y) i
       + length (filter (carriesIterator (yState y) i) (subsequentPayloads (yState y)))"
    by (simp add: yielderReturn_def Let_def count_asked split: list.splits)
  show "yState (snd (yielderReturn y)) = yState y"
    by (simp add: yielderReturn_def Let_def split: list.splits)
next
  assume h: "list_all (\<lambda>rid. \<not> returnRejects (yState y) rid) (subsequentPayloads (yState y))"
  then show "fst (yielderReturn y) = Return Done"
    by (simp add: yielderReturn_def Let_def no_rejections)
  from h show "isDone (snd (yielderReturn y))"
    by (simp add: yielderReturn_def Let_def no_rejections)
  assume "hasReturnedInitialResult y"
  with h show "yielderNext settlements (snd (yielderReturn y)) = (Some Done, snd (yielderReturn y))"
    by (simp add: yielderNext_def yielderReturn_def Let_def no_rejections)
qed

text \<open>The streamed asynchronous list after one item, the initial result taken: the two
  pending records carry the iterator 7, no call is rejected, \<^verbatim>\<open>return\<close> completes and a
  later \<^verbatim>\<open>next\<close> reports completion.\<close>

theorem return_asks_each_pending_record_witness:
  "hasReturnedInitialResult (snd (yielderNext [] (asyncListYielder asyncListOneItem)))
   \<and> list_all (\<lambda>rid. \<not> returnRejects asyncListOneItem rid) (subsequentPayloads asyncListOneItem)
   \<and> length (filter (carriesIterator asyncListOneItem 7) (subsequentPayloads asyncListOneItem)) = 2
   \<and> count_list (returnCalls (snd (yielderReturn (snd (yielderNext [] (asyncListYielder asyncListOneItem)))))) 7
       = 2
   \<and> fst (yielderReturn (snd (yielderNext [] (asyncListYielder asyncListOneItem)))) = Return Done
   \<and> fst (yielderNext [] (snd (yielderReturn (snd (yielderNext [] (asyncListYielder asyncListOneItem))))))
       = Some Done"
proof -
  let ?y = "snd (yielderNext [] (asyncListYielder asyncListOneItem))"
  have pending: "subsequentPayloads asyncListOneItem = [0, 1]"
    by (simp add: asyncList_defs scenario_defs execute_defs complete_defs)
  have iterators: "map (\<lambda>rid. prIterator (records asyncListOneItem rid)) [0, 1]
                     = [Some sourceIterator, Some sourceIterator]"
    by (simp add: asyncList_defs scenario_defs execute_defs complete_defs)
  have ys: "yState ?y = asyncListOneItem" and initial: "hasReturnedInitialResult ?y"
    and calls: "returnCalls ?y = []"
    by (simp_all add: yielderNext_def asyncListYielder_def executeFulfilled_def Let_def
        yieldSubsequentPayloads_def pending)
  have carried: "length (filter (carriesIterator asyncListOneItem 7) (subsequentPayloads asyncListOneItem)) = 2"
    using iterators by (simp add: pending carriesIterator_def returnIterator_def sourceIterator_def)
  have fulfil: "list_all (\<lambda>rid. \<not> returnRejects asyncListOneItem rid) (subsequentPayloads asyncListOneItem)"
    using iterators by (simp add: pending returnRejects_def returnIterator_def sourceIterator_def)
  show ?thesis
    using return_asks_each_pending_record [where y = ?y and i = 7 and settlements = "[]"]
      ys initial calls carried fulfil
    by simp
qed

text \<open>Against the claim as stated: in that state one call of \<^verbatim>\<open>return\<close> asks the single
  source iterator twice; and a call of \<^verbatim>\<open>return\<close> made before the initial result was
  taken leaves a yielder whose next \<^verbatim>\<open>next\<close> yields the initial result, not completion.\<close>

theorem return_asks_shared_iterator_twice:
  "map (\<lambda>rid. map_option iterId (prIterator (records asyncListOneItem rid)))
       (subsequentPayloads asyncListOneItem) = [Some 7, Some 7]
   \<and> returnCalls (snd (yielderReturn (snd (yielderNext [] (asyncListYielder asyncListOneItem))))) = [7, 7]
   \<and> count_list (returnCalls (snd (yielderReturn (snd (yielderNext [] (asyncListYielder asyncListOneItem)))))) 7
       \<noteq> 1
   \<and> isDone (snd (yielderReturn (asyncListYielder asyncListOneItem)))
   \<and> fst (yielderNext [] (snd (yielderReturn (asyncListYielder asyncListOneItem))))
       = Some (Yield \<lparr>resErrors = None, resData = Some (Obj [(''list'', Arr [])]), resPath = None,
                      resLabel = None, resHasNext = Some True\<rparr>)"
proof -
  have pending: "subsequentPayloads asyncListOneItem = [0, 1]"
    by (simp add: asyncList_defs scenario_defs execute_defs complete_defs)
  have iterators: "map (\<lambda>rid. prIterator (records asyncListOneItem rid)) [0, 1]
                     = [Some sourceIterator, Some sourceIterator]"
    by (simp add: asyncList_defs scenario_defs execute_defs complete_defs)
  have errs: "ctxErrors asyncListOneItem = []"
    by (simp add: asyncList_defs scenario_defs execute_defs complete_defs)
  show ?thesis
    using iterators
    by (simp add: pending errs yielderNext_def yielderReturn_def asyncListYielder_def
        executeFulfilled_def buildResponse_def emptyResult_def yieldSubsequentPayloads_def Let_def
        returnIterator_def sourceIterator_def List.map_filter_simps)
qed

subsection \<open>Streaming a synchronous list\<close>

lemma streamsFrom_Suc: "streamsFrom stream i \<Longrightarrow> streamsFrom stream (Suc i)"
  by (auto simp: streamsFrom_def split: option.splits val.splits)

lemma streamsFrom_count:
  "initialCount sv = Num (of_nat k) \<Longrightarrow> streamsFrom (Some sv) i \<longleftrightarrow> k \<le> i"
  by (simp add: streamsFrom_def)

lemma executeStreamField_state:
  "executeStreamField q item l prev st =
     (nextRecord st,
      st\<lparr>records := (records st)(nextRecord st :=
             \<lparr>prErrors = [], prLabel = l, prPath = Some q,
              prDataPromise = Some \<lparr>dpSource = StreamedItem item, dpAfter = prev\<rparr>,
              prIterator = None, prIsCompletedIterator = False\<rparr>),
         nextRecord := Suc (nextRecord st),
         subsequentPayloads := subsequentPayloads st @ [nextRecord st]\<rparr>)"
  by (simp add: executeStreamField_def allocRecord_def addDataPromise_def pushPayload_def
      newAsyncPayloadRecord_def)

text \<open>From the first streamed index on, the loop completes nothing: it returns no value,
  leaves the error log alone and makes one record for each remaining item.\<close>

lemma streaming_phase:
  assumes "streamsFrom stream index"
  shows "\<exists>st'. completeListItems cv d ctx itemType fieldNodes info p stream apr ys index prev st
                 = Some (Return [], st')
           \<and> subsequentPayloads st' = subsequentPayloads st @ [nextRecord st ..< nextRecord st + length ys]
           \<and> nextRecord st' = nextRecord st + length ys
           \<and> ctxErrors st' = ctxErrors st
           \<and> (\<forall>j < length ys. records st' (nextRecord st + j)
                  = streamRecord (labelOf stream) p (index + j) (ys ! j)
                      (if j = 0 then prev else Some (nextRecord st + j - 1)))
           \<and> (\<forall>r < nextRecord st. records st' r = records st r)"
  using assms
proof (induction ys arbitrary: index prev st)
  case Nil
  then show ?case by simp
next
  case (Cons y ys)
  let ?sa = "snd (executeStreamField (addPath (Some p) (Index index) None) y (labelOf stream) prev st)"
  have nx: "nextRecord ?sa = Suc (nextRecord st)"
    and sp: "subsequentPayloads ?sa = subsequentPayloads st @ [nextRecord st]"
    and ce: "ctxErrors ?sa = ctxErrors st"
    and r0: "records ?sa (nextRecord st) = streamRecord (labelOf stream) p index y prev"
    and rl: "\<And>r. r < nextRecord st \<Longrightarrow> records ?sa r = records st r"
    by (simp_all add: executeStreamField_state streamRecord_def)
  from Cons.prems have "streamsFrom stream (Suc index)" by (rule streamsFrom_Suc)
  from Cons.IH [OF this, of "Some (nextRecord st)" ?sa]
  obtain st' where
    run: "completeListItems cv d ctx itemType fieldNodes info p stream apr ys (Suc index)
            (Some (nextRecord st)) ?sa = Some (Return [], st')"
    and sp': "subsequentPayloads st' = subsequentPayloads ?sa @ [nextRecord ?sa ..< nextRecord ?sa + length ys]"
    and nx': "nextRecord st' = nextRecord ?sa + length ys"
    and ce': "ctxErrors st' = ctxErrors ?sa"
    and rs': "\<forall>j < length ys. records st' (nextRecord ?sa + j)
                  = streamRecord (labelOf stream) p (Suc index + j) (ys ! j)
                      (if j = 0 then Some (nextRecord st) else Some (nextRecord ?sa + j - 1))"
    and rl': "\<forall>r < nextRecord ?sa. records st' r = records ?sa r"
    by blast
  have whole: "completeListItems cv d ctx itemType fieldNodes info p stream apr (y # ys) index prev st
                 = Some (Return [], st')"
    using Cons.prems run
    by (simp add: Let_def executeStreamField_state split: prod.splits)
  have sp'': "subsequentPayloads st'
                = subsequentPayloads st @ [nextRecord st ..< nextRecord st + length (y # ys)]"
  proof -
    have "[nextRecord st ..< nextRecord st + length (y # ys)]
            = nextRecord st # [Suc (nextRecord st) ..< Suc (nextRecord st) + length ys]"
      by (subst upt_rec) simp
    with sp' sp nx show ?thesis by simp
  qed
  have recs: "\<forall>j < length (y # ys). records st' (nextRecord st + j)
                  = streamRecord (labelOf stream) p (index + j) ((y # ys) ! j)
                      (if j = 0 then prev else Some (nextRecord st + j - 1))"
  proof (intro allI impI)
    fix j assume j: "j < length (y # ys)"
    show "records st' (nextRecord st + j)
            = streamRecord (labelOf stream) p (index + j) ((y # ys) ! j)
                (if j = 0 then prev else Some (nextRecord st + j - 1))"
    proof (cases j)
      case 0
      have "records st' (nextRecord st) = records ?sa (nextRecord st)"
        using rl' nx by simp
      with r0 0 show ?thesis by simp
    next
      case (Suc i)
      with j have i: "i < length ys" by simp
      from rs' i have "records st' (nextRecord ?sa + i)
                  = streamRecord (labelOf stream) p (Suc index + i) (ys ! i)
                      (if i = 0 then Some (nextRecord st) else Some (nextRecord ?sa + i - 1))"
        by blast
      then show ?thesis using Suc nx by (cases i) simp_all
    qed
  qed
  have low: "\<forall>r < nextRecord st. records st' r = records st r"
    using rl' rl nx by simp
  show ?case
    using whole sp'' nx' nx ce' ce recs low by simp
qed

text \<open>Before the first streamed index the loop on a list equals the loop on a prefix
  followed by the loop on the rest, and returns one value for each item.\<close>

lemma inline_phase_split:
  assumes "\<forall>i. index \<le> i \<and> i < index + length xs \<longrightarrow> \<not> streamsFrom stream i"
  shows "completeListItems cv d ctx itemType fieldNodes info p stream apr (xs @ ys) index prev st =
     (case completeListItems cv d ctx itemType fieldNodes info p stream apr xs index prev st of
        None \<Rightarrow> None
      | Some (Raise e, s) \<Rightarrow> Some (Raise e, s)
      | Some (Return vs, s) \<Rightarrow>
          (case completeListItems cv d ctx itemType fieldNodes info p stream apr ys
                  (index + length xs) prev s of
             None \<Rightarrow> None
           | Some (Raise e, s') \<Rightarrow> Some (Raise e, s')
           | Some (Return ws, s') \<Rightarrow> Some (Return (vs @ ws), s')))"
  using assms
proof (induction xs arbitrary: index st)
  case Nil
  then show ?case by (simp split: option.splits prod.splits outcome.splits)
next
  case (Cons x xs)
  have here: "\<not> streamsFrom stream index" using Cons.prems by simp
  have rest: "\<forall>i. Suc index \<le> i \<and> i < Suc index + length xs \<longrightarrow> \<not> streamsFrom stream i"
    using Cons.prems by simp
  show ?case
    using here
    by (simp add: Let_def Cons.IH [OF rest] split: option.splits prod.splits outcome.splits)
qed

lemma inline_phase_length:
  assumes "\<forall>i. index \<le> i \<and> i < index + length xs \<longrightarrow> \<not> streamsFrom stream i"
      and "completeListItems cv d ctx itemType fieldNodes info p stream apr xs index prev st
             = Some (Return vs, s)"
  shows "length vs = length xs"
  using assms
proof (induction xs arbitrary: index st vs)
  case Nil
  then show ?case by simp
next
  case (Cons x xs)
  have here: "\<not> streamsFrom stream index" using Cons.prems(1) by simp
  have rest: "\<forall>i. Suc index \<le> i \<and> i < Suc index + length xs \<longrightarrow> \<not> streamsFrom stream i"
    using Cons.prems(1) by simp
  from Cons.prems(2) here obtain v ws sa where
    "completeListItems cv d ctx itemType fieldNodes info p stream apr xs (Suc index) prev sa
       = Some (Return ws, s)"
    and "vs = v # ws"
    by (auto simp: Let_def split: option.splits prod.splits outcome.splits if_splits)
  with Cons.IH [OF rest] show ?case by simp
qed


text \<open>
  Claim C4, as the code has it. Let \<^verbatim>\<open>@stream\<close> be active with \<^verbatim>\<open>initialCount\<close> \<open>k\<close> on a
  list field whose value is the synchronous iterable \<open>items\<close>. If the completion of the
  items at the indices below \<open>k\<close> returns the values \<open>vs\<close>, then the completion of the list
  returns exactly \<open>vs\<close> (as an array, or as \<^verbatim>\<open>Promise.all\<close> of it when one of them is a
  promise), without completing any later item: the error log stays as the first \<open>k\<close> items
  left it, and for each item at an index \<open>k + j\<close> one new record is appended to the pending
  records, in index order, whose path ends in the index \<open>k + j\<close>, whose data promise is
  for that item and is sequenced after the record of the item before it (the first after
  the enclosing record, if there is one). If the completion of one of the first \<open>k\<close>
  items raises, which a non-null item type makes it do, the completion of the list raises
  that error in the same state and no record is made for the later items.
\<close>

theorem streamed_list_completion:
  assumes "getStreamValues d ctx fieldNodes = Return (Some sv)"
      and "initialCount sv = Num (of_nat k)"
  shows "(completeListItems cv d ctx itemType fieldNodes info p (Some sv) apr (take k items) 0 apr st
            = Some (Return vs, sa) \<longrightarrow>
          (\<exists>st'. completeListValue cv d ctx itemType fieldNodes info p (Arr items) apr st
                    = Some (Return (if list_ex isPromise vs then PromiseAll vs else Arr vs), st')
                \<and> length vs = min k (length items)
                \<and> subsequentPayloads st'
                    = subsequentPayloads sa @ [nextRecord sa ..< nextRecord sa + (length items - k)]
                \<and> (\<forall>j < length items - k. records st' (nextRecord sa + j)
                       = streamRecord (streamLabel sv) p (k + j) (items ! (k + j))
                           (if j = 0 then apr else Some (nextRecord sa + j - 1)))
                \<and> ctxErrors st' = ctxErrors sa
                \<and> (\<forall>r < nextRecord sa. records st' r = records sa r)))
       \<and> (completeListItems cv d ctx itemType fieldNodes info p (Some sv) apr (take k items) 0 apr st
            = Some (Raise e, sa) \<longrightarrow>
          completeListValue cv d ctx itemType fieldNodes info p (Arr items) apr st = Some (Raise e, sa))"
proof -
  note gs = assms(1) and ic = assms(2)
  let ?loop = "completeListItems cv d ctx itemType fieldNodes info p (Some sv) apr"
  have inline: "\<forall>i. 0 \<le> i \<and> i < 0 + length (take k items) \<longrightarrow> \<not> streamsFrom (Some sv) i"
    using ic by (simp add: streamsFrom_count)
  have split: "?loop items 0 apr st =
     (case ?loop (take k items) 0 apr st of
        None \<Rightarrow> None
      | Some (Raise e, s) \<Rightarrow> Some (Raise e, s)
      | Some (Return vs, s) \<Rightarrow>
          (case ?loop (drop k items) (0 + length (take k items)) apr s of
             None \<Rightarrow> None
           | Some (Raise e, s') \<Rightarrow> Some (Raise e, s')
           | Some (Return ws, s') \<Rightarrow> Some (Return (vs @ ws), s')))"
    using inline_phase_split [OF inline, of cv d ctx itemType fieldNodes info p apr "drop k items" apr st]
    by simp
  have raised: "?loop (take k items) 0 apr st = Some (Raise e, sa) \<longrightarrow>
          completeListValue cv d ctx itemType fieldNodes info p (Arr items) apr st = Some (Raise e, sa)"
    by (simp add: completeListValue_def gs split)
  have returned: "?loop (take k items) 0 apr st = Some (Return vs, sa) \<longrightarrow>
          (\<exists>st'. completeListValue cv d ctx itemType fieldNodes info p (Arr items) apr st
                    = Some (Return (if list_ex isPromise vs then PromiseAll vs else Arr vs), st')
                \<and> length vs = min k (length items)
                \<and> subsequentPayloads st'
                    = subsequentPayloads sa @ [nextRecord sa ..< nextRecord sa + (length items - k)]
                \<and> (\<forall>j < length items - k. records st' (nextRecord sa + j)
                       = streamRecord (streamLabel sv) p (k + j) (items ! (k + j))
                           (if j = 0 then apr else Some (nextRecord sa + j - 1)))
                \<and> ctxErrors st' = ctxErrors sa
                \<and> (\<forall>r < nextRecord sa. records st' r = records sa r))"
  proof
    assume pre: "?loop (take k items) 0 apr st = Some (Return vs, sa)"
    have len: "length vs = min k (length items)"
      using inline_phase_length [OF inline pre] by (simp add: min.commute)
    show "\<exists>st'. completeListValue cv d ctx itemType fieldNodes info p (Arr items) apr st
                    = Some (Return (if list_ex isPromise vs then PromiseAll vs else Arr vs), st')
                \<and> length vs = min k (length items)
                \<and> subsequentPayloads st'
                    = subsequentPayloads sa @ [nextRecord sa ..< nextRecord sa + (length items - k)]
                \<and> (\<forall>j < length items - k. records st' (nextRecord sa + j)
                       = streamRecord (streamLabel sv) p (k + j) (items ! (k + j))
                           (if j = 0 then apr else Some (nextRecord sa + j - 1)))
                \<and> ctxErrors st' = ctxErrors sa
                \<and> (\<forall>r < nextRecord sa. records st' r = records sa r)"
    proof (cases "k \<le> length items")
      case True
      then have at: "0 + length (take k items) = k" by simp
      have "streamsFrom (Some sv) k" using ic by (simp add: streamsFrom_count)
      from streaming_phase [OF this, of cv d ctx itemType fieldNodes info p apr "drop k items" apr sa]
      obtain st' where
        run: "?loop (drop k items) k apr sa = Some (Return [], st')"
        and sp: "subsequentPayloads st'
                   = subsequentPayloads sa @ [nextRecord sa ..< nextRecord sa + length (drop k items)]"
        and ce: "ctxErrors st' = ctxErrors sa"
        and rs: "\<forall>j < length (drop k items). records st' (nextRecord sa + j)
                  = streamRecord (labelOf (Some sv)) p (k + j) (drop k items ! j)
                      (if j = 0 then apr else Some (nextRecord sa + j - 1))"
        and rl: "\<forall>r < nextRecord sa. records st' r = records sa r"
        by blast
      have whole: "completeListValue cv d ctx itemType fieldNodes info p (Arr items) apr st
                    = Some (Return (if list_ex isPromise vs then PromiseAll vs else Arr vs), st')"
        using pre run at by (simp add: completeListValue_def gs split)
      have rs': "\<forall>j < length items - k. records st' (nextRecord sa + j)
                       = streamRecord (streamLabel sv) p (k + j) (items ! (k + j))
                           (if j = 0 then apr else Some (nextRecord sa + j - 1))"
        using rs True by (simp add: labelOf_def)
      show ?thesis
        using whole len sp ce rs' rl by auto
    next
      case False
      then have all: "take k items = items" and none: "length items - k = 0" by simp_all
      have whole: "completeListValue cv d ctx itemType fieldNodes info p (Arr items) apr st
                    = Some (Return (if list_ex isPromise vs then PromiseAll vs else Arr vs), sa)"
        using pre by (simp add: completeListValue_def gs all)
      show ?thesis
        using whole len none by auto
    qed
  qed
  show ?thesis using returned raised by (rule conjI)
qed

text \<open>Scenario S7: \<^verbatim>\<open>{ list @stream(initialCount: 2) }\<close> on the list 10, 20, 30, 40. The list
  completes to 10, 20, and the records 0 and 1 are made for the indices 2 and 3, the second
  sequenced after the first.\<close>

theorem streamed_list_completion_witness:
  "\<exists>st'. completeListValue
            (completeValue (Suc 0) scenarioDeps
               (scenarioContext (listSchema (LeafType ''Int'') [Num 10, Num 20, Num 30, Num 40])))
            scenarioDeps (scenarioContext (listSchema (LeafType ''Int'') [Num 10, Num 20, Num 30, Num 40]))
            (LeafType ''Int'') [listNode (Num 2)] (listInfo (LeafType ''Int'')) asyncListPath
            (Arr [Num 10, Num 20, Num 30, Num 40]) None initialState
          = Some (Return (Arr [Num 10, Num 20]), st')
        \<and> subsequentPayloads st' = [0, 1]
        \<and> records st' 0 = streamRecord None asyncListPath 2 (Num 30) None
        \<and> records st' 1 = streamRecord None asyncListPath 3 (Num 40) (Some 0)
        \<and> ctxErrors st' = []"
proof -
  let ?ctx = "scenarioContext (listSchema (LeafType ''Int'') [Num 10, Num 20, Num 30, Num 40])"
  let ?cv = "completeValue (Suc 0) scenarioDeps ?ctx"
  let ?sv = "\<lparr>initialCount = Num 2, streamLabel = None\<rparr>"
  let ?items = "[Num 10, Num 20, Num 30, Num 40]"
  have gs: "getStreamValues scenarioDeps ?ctx [listNode (Num 2)] = Return (Some ?sv)"
    by (simp add: list_defs scenario_defs complete_defs)
  have ic: "initialCount ?sv = Num (of_nat 2)"
    by simp
  have first: "completeListItems ?cv scenarioDeps ?ctx (LeafType ''Int'') [listNode (Num 2)]
                 (listInfo (LeafType ''Int'')) asyncListPath (Some ?sv) None (take 2 ?items) 0 None
                 initialState
               = Some (Return [Num 10, Num 20], initialState)"
    by (simp add: list_defs scenario_defs execute_defs complete_defs)
  from streamed_list_completion [OF gs ic, where cv = ?cv and itemType = "LeafType ''Int''"
      and info = "listInfo (LeafType ''Int'')" and p = asyncListPath and apr = None
      and items = ?items and st = initialState and vs = "[Num 10, Num 20]" and sa = initialState]
    first
  obtain st' where
    whole: "completeListValue ?cv scenarioDeps ?ctx (LeafType ''Int'') [listNode (Num 2)]
              (listInfo (LeafType ''Int'')) asyncListPath (Arr ?items) None initialState
            = Some (Return (Arr [Num 10, Num 20]), st')"
    and sp: "subsequentPayloads st' = [0, 1]"
    and rs: "\<forall>j < 2. records st' j
               = streamRecord None asyncListPath (2 + j) (?items ! (2 + j))
                   (if j = 0 then None else Some (j - 1))"
    and ce: "ctxErrors st' = []"
    by (auto simp: initialState_def upt_rec)
  have r0: "records st' 0 = streamRecord None asyncListPath 2 (Num 30) None"
    using rs [rule_format, of 0] by simp
  have r1: "records st' 1 = streamRecord None asyncListPath 3 (Num 40) (Some 0)"
    using rs [rule_format, of 1] by simp
  from whole sp r0 r1 ce show ?thesis by blast
qed

text \<open>Against the claim as stated: \<^verbatim>\<open>{ list @stream(initialCount: 1) }\<close> on
  \<^verbatim>\<open>type Q { list: [Int!] }\<close> with the list null, 30. The item at index 0 completes to null
  under a non-null type, the completion of the list raises, and the item at index 1 gets
  no record: the response is plain, with \<^verbatim>\<open>list\<close> null.\<close>

theorem streamed_item_without_record:
  "completeListValue
     (completeValue (Suc (Suc 0)) scenarioDeps
        (scenarioContext (listSchema (GraphQLNonNull (LeafType ''Int'')) [Null, Num 30])))
     scenarioDeps (scenarioContext (listSchema (GraphQLNonNull (LeafType ''Int'')) [Null, Num 30]))
     (GraphQLNonNull (LeafType ''Int'')) [listNode (Num 1)] (listInfo (GraphQLNonNull (LeafType ''Int'')))
     asyncListPath (Arr [Null, Num 30]) None initialState
   = Some (Raise \<lparr>message = ''Cannot return null for non-nullable field Q.list.'',
                  errPath = Some [Key ''list'', Index 0]\<rparr>, initialState)
   \<and> subsequentPayloads initialState = []
   \<and> execute (Suc (Suc (Suc 0))) scenarioDeps
       (scenarioArgs (listSchema (GraphQLNonNull (LeafType ''Int'')) [Null, Num 30])
          [queryOperation None [SelField (listNode (Num 1))]] None)
     = Some (Return (PlainResult
         \<lparr>resErrors = Some [\<lparr>message = ''Cannot return null for non-nullable field Q.list.'',
                              errPath = Some [Key ''list'', Index 0]\<rparr>],
          resData = Some (Obj [(''list'', Null)]), resPath = None, resLabel = None,
          resHasNext = None\<rparr>))"
  by (simp add: list_defs scenario_defs execute_defs complete_defs)

subsection \<open>The arguments of the stream directive\<close>







end
